theory Spec2Isabelle
  imports Complex_Main "HOL-Library.Char_ord" "HOL-Library.List_Lexorder" "HOL-Library.Multiset"
begin

section \<open>Values, documents and Python errors\<close>

text \<open>
  The dashboard script \<^verbatim>\<open>streamlit_app.py\<close> reads order documents from a MongoDB
  collection. A document is a Python \<^verbatim>\<open>dict\<close> whose values are whatever the database
  holds (schema on read), so a value is modelled as a tree: \<open>BNull\<close> is Python's
  \<^verbatim>\<open>None\<close>, \<open>BNum\<close> a number (an integer or a double, as the rational it denotes),
  \<open>BDate\<close> a timestamp in seconds since the epoch, \<open>BOid\<close> an object identifier,
  \<open>BArr\<close> a list and \<open>BDoc\<close> a nested \<^verbatim>\<open>dict\<close> (an association list; a key is
  looked up with \<open>map_of\<close>).
\<close>

datatype bson =
    BNull
  | BBool bool
  | BNum rat
  | BStr string
  | BDate int
  | BOid string
  | BArr "bson list"
  | BDoc "(string \<times> bson) list"

type_synonym doc = "(string \<times> bson) list"

text \<open>
  The exceptions that the modelled code can raise. \<open>RuntimeError\<close> is the one raised by
  \<^verbatim>\<open>get_collection\<close> for a missing connection string; \<open>PyMongoError\<close> stands for every
  failure inside the database driver, \<open>SecretNotFoundError\<close> for the failure of
  reading a secret when there is no secrets file (\<^verbatim>\<open>FileNotFoundError\<close> or
  \<^verbatim>\<open>StreamlitSecretNotFoundError\<close>, by the version of the library).
\<close>

datatype py_error =
  RuntimeError | AttributeError | TypeError | IndexError | ValueError | SecretNotFoundError
  | PyMongoError

text \<open>
  Sequencing of computations that may raise: the first exception ends the evaluation,
  a value is handed to the rest.
\<close>

fun raising :: "py_error + 'a \<Rightarrow> ('a \<Rightarrow> py_error + 'b) \<Rightarrow> py_error + 'b" where
  "raising (Inl e) k = Inl e"
| "raising (Inr x) k = k x"

text \<open>\<^verbatim>\<open>d.get(k)\<close> and \<^verbatim>\<open>d.get(k, default)\<close> on a \<^verbatim>\<open>dict\<close>.\<close>

definition dict_get :: "doc \<Rightarrow> string \<Rightarrow> bson" where
  "dict_get d k = (case map_of d k of None \<Rightarrow> BNull | Some v \<Rightarrow> v)"

definition dict_get_default :: "doc \<Rightarrow> string \<Rightarrow> bson \<Rightarrow> bson" where
  "dict_get_default d k dflt = (case map_of d k of None \<Rightarrow> dflt | Some v \<Rightarrow> v)"

text \<open>
  \<^verbatim>\<open>x.get(k)\<close> and \<^verbatim>\<open>x.get(k, default)\<close> on an arbitrary value \<open>x\<close>: only a \<^verbatim>\<open>dict\<close>
  has the method, every other value (also \<^verbatim>\<open>None\<close>) raises \<^verbatim>\<open>AttributeError\<close>.
\<close>

fun attr_get :: "bson \<Rightarrow> string \<Rightarrow> py_error + bson" where
  "attr_get (BDoc kv) k = Inr (dict_get kv k)"
| "attr_get _ k = Inl AttributeError"

fun attr_get_default :: "bson \<Rightarrow> string \<Rightarrow> bson \<Rightarrow> py_error + bson" where
  "attr_get_default (BDoc kv) k dflt = Inr (dict_get_default kv k dflt)"
| "attr_get_default _ k dflt = Inl AttributeError"

text \<open>
  Iterating over a value (\<^verbatim>\<open>for it in items\<close>): a list yields its elements, a string
  its characters, a \<^verbatim>\<open>dict\<close> its keys; the other values are not iterable.
\<close>

fun py_iter :: "bson \<Rightarrow> py_error + bson list" where
  "py_iter (BArr xs) = Inr xs"
| "py_iter (BStr s) = Inr (map (\<lambda>c. BStr [c]) s)"
| "py_iter (BDoc kv) = Inr (map (\<lambda>p. BStr (fst p)) kv)"
| "py_iter _ = Inl TypeError"

section \<open>The loader: \<^verbatim>\<open>load_orders\<close>\<close>

text \<open>
  \<^verbatim>\<open>sum(it.get("quantity",0) for it in items)\<close>: the generator is consumed from the left,
  starting from \<open>0\<close>. An item that is not a \<^verbatim>\<open>dict\<close> raises \<^verbatim>\<open>AttributeError\<close>; a
  quantity that is not a number raises \<^verbatim>\<open>TypeError\<close> in the addition (a Boolean is a
  Python integer).
\<close>

fun sum_quantity :: "rat \<Rightarrow> bson list \<Rightarrow> py_error + rat" where
  "sum_quantity acc [] = Inr acc"
| "sum_quantity acc (it # its) =
     (case attr_get_default it ''quantity'' (BNum 0) of
        Inl e \<Rightarrow> Inl e
      | Inr (BNum q) \<Rightarrow> sum_quantity (acc + q) its
      | Inr (BBool b) \<Rightarrow> sum_quantity (acc + (if b then 1 else 0)) its
      | Inr _ \<Rightarrow> Inl TypeError)"

text \<open>
  \<^verbatim>\<open>{it.get("category","") for it in items}\<close>: the labels are collected from the left;
  a label that cannot be hashed (a list or a \<^verbatim>\<open>dict\<close>) raises \<^verbatim>\<open>TypeError\<close>.
\<close>

fun hashable :: "bson \<Rightarrow> bool" where
  "hashable (BArr _) = False"
| "hashable (BDoc _) = False"
| "hashable _ = True"

fun category_labels :: "bson list \<Rightarrow> py_error + bson list" where
  "category_labels [] = Inr []"
| "category_labels (it # its) =
     (case attr_get_default it ''category'' (BStr '''') of
        Inl e \<Rightarrow> Inl e
      | Inr v \<Rightarrow>
          if hashable v then
            (case category_labels its of Inl e \<Rightarrow> Inl e | Inr vs \<Rightarrow> Inr (v # vs))
          else Inl TypeError)"

text \<open>
  \<^verbatim>\<open>",".join(sorted(labels))\<close>. Sorting a set that mixes strings with other values
  raises \<^verbatim>\<open>TypeError\<close>, and so does joining anything that is not a string, so the
  expression has a value exactly when every label is a string. Strings are compared
  character by character on their codes.
\<close>

fun str_values :: "bson list \<Rightarrow> string list option" where
  "str_values [] = Some []"
| "str_values (BStr s # vs) = (case str_values vs of None \<Rightarrow> None | Some ss \<Rightarrow> Some (s # ss))"
| "str_values (_ # vs) = None"

fun comma_join :: "string list \<Rightarrow> string" where
  "comma_join [] = []"
| "comma_join [s] = s"
| "comma_join (s # t # ts) = s @ '','' @ comma_join (t # ts)"

definition join_sorted :: "bson list \<Rightarrow> py_error + string" where
  "join_sorted vs =
     (case str_values vs of
        None \<Rightarrow> Inl TypeError
      | Some ss \<Rightarrow> Inr (comma_join (sort (remdups ss))))"

text \<open>
  The body of the flattening loop: one document to one row, itself a \<^verbatim>\<open>dict\<close> with the
  keys in the order of the source. The entries are evaluated in that order, so the
  first failing entry decides the exception. \<open>py_str\<close> is Python's \<^verbatim>\<open>str\<close>.
\<close>

definition flatten_doc :: "(bson \<Rightarrow> string) \<Rightarrow> doc \<Rightarrow> py_error + doc" where
  "flatten_doc py_str d =
     (let items = dict_get_default d ''items'' (BArr []) in
      raising (attr_get (dict_get_default d ''store'' (BDoc [])) ''store_city'') (\<lambda>store_city.
      raising (attr_get (dict_get_default d ''store'' (BDoc [])) ''region'') (\<lambda>region.
      raising (attr_get (dict_get_default d ''customer'' (BDoc [])) ''loyalty_member'') (\<lambda>loyalty_member.
      raising (attr_get (dict_get_default d ''customer'' (BDoc [])) ''age_band'') (\<lambda>age_band.
      raising (py_iter items) (\<lambda>its.
      raising (sum_quantity 0 its) (\<lambda>num_items.
      raising (category_labels its) (\<lambda>labels.
      raising (join_sorted labels) (\<lambda>categories.
        Inr [(''order_id'', BStr (py_str (dict_get d ''_id''))),
             (''purchase_ts'', dict_get d ''purchase_ts''),
             (''purchase_date'', dict_get d ''purchase_date''),
             (''purchase_time'', dict_get d ''purchase_time''),
             (''weekday'', dict_get d ''weekday''),
             (''hour'', dict_get d ''hour''),
             (''store_city'', store_city),
             (''region'', region),
             (''channel'', dict_get d ''channel''),
             (''payment_method'', dict_get d ''payment_method''),
             (''loyalty_member'', loyalty_member),
             (''age_band'', age_band),
             (''coupon_used'', dict_get d ''coupon_used''),
             (''discount_pct'', dict_get d ''discount_pct''),
             (''subtotal'', dict_get d ''subtotal''),
             (''discount_amount'', dict_get d ''discount_amount''),
             (''tax_amount'', dict_get d ''tax_amount''),
             (''shipping_amount'', dict_get d ''shipping_amount''),
             (''total_amount'', dict_get d ''total_amount''),
             (''num_items'', BNum num_items),
             (''categories'', BStr categories)])))))))))"

text \<open>The loop \<^verbatim>\<open>for d in docs: rows.append(...)\<close>; the first exception ends it.\<close>

fun flatten_docs :: "(bson \<Rightarrow> string) \<Rightarrow> doc list \<Rightarrow> py_error + doc list" where
  "flatten_docs py_str [] = Inr []"
| "flatten_docs py_str (d # ds) =
     (case flatten_doc py_str d of
        Inl e \<Rightarrow> Inl e
      | Inr r \<Rightarrow> (case flatten_docs py_str ds of Inl e \<Rightarrow> Inl e | Inr rs \<Rightarrow> Inr (r # rs)))"

text \<open>
  \<^verbatim>\<open>df["purchase_ts"] = pd.to_datetime(df["purchase_ts"], errors="coerce")\<close>. The
  conversion works on the whole column and is the library's business, so
  \<open>to_datetime\<close> is a parameter: a function from the column of values to a column of
  nullable timestamps, which may also raise. Assigning a column whose length is not
  the number of rows raises \<^verbatim>\<open>ValueError\<close>.
\<close>

definition ts_cell :: "int option \<Rightarrow> bson" where
  "ts_cell t = (case t of None \<Rightarrow> BNull | Some x \<Rightarrow> BDate x)"

definition set_cell :: "string \<Rightarrow> bson \<Rightarrow> doc \<Rightarrow> doc" where
  "set_cell key c r = map (\<lambda>p. if fst p = key then (key, c) else p) r"

definition assign_purchase_ts :: "doc list \<Rightarrow> int option list \<Rightarrow> py_error + doc list" where
  "assign_purchase_ts rows ts =
     (if length ts \<noteq> length rows then Inl ValueError
      else Inr (map (\<lambda>p. set_cell ''purchase_ts'' (ts_cell (snd p)) (fst p)) (zip rows ts)))"

text \<open>
  The body of \<^verbatim>\<open>load_orders(_coll)\<close>. A data frame is the list of its rows;
  \<^verbatim>\<open>pd.DataFrame()\<close> is the empty list. \<open>aggregate\<close> is the projection query of the
  driver on the collection handle: it raises or returns the documents.
\<close>

definition load_orders_body ::
  "('h \<Rightarrow> py_error + doc list) \<Rightarrow> (bson \<Rightarrow> string) \<Rightarrow> (bson list \<Rightarrow> py_error + int option list)
     \<Rightarrow> 'h \<Rightarrow> py_error + doc list" where
  "load_orders_body aggregate py_str to_datetime coll =
     raising (aggregate coll) (\<lambda>docs.
       if docs = [] then Inr []
       else
         raising (flatten_docs py_str docs) (\<lambda>rows.
         raising (to_datetime (map (\<lambda>r. dict_get r ''purchase_ts'') rows)) (\<lambda>ts.
         assign_purchase_ts rows ts)))"

text \<open>
  \<^verbatim>\<open>load_orders\<close> as decorated with \<^verbatim>\<open>@st.cache_data\<close>. The only argument begins with an
  underscore and is left out of the cache key, so there is one cache entry: the frame
  of the first call that returned. While it is there the body does not run and the
  cached frame is returned; an exception is not cached. The cache is passed in and
  returned; \<open>None\<close> is the empty cache of a fresh process.
\<close>

definition load_orders ::
  "('h \<Rightarrow> py_error + doc list) \<Rightarrow> (bson \<Rightarrow> string) \<Rightarrow> (bson list \<Rightarrow> py_error + int option list)
     \<Rightarrow> doc list option \<Rightarrow> 'h \<Rightarrow> (py_error + doc list) \<times> doc list option" where
  "load_orders aggregate py_str to_datetime cache coll =
     (case cache of
        Some df \<Rightarrow> (Inr df, cache)
      | None \<Rightarrow>
          (case load_orders_body aggregate py_str to_datetime coll of
             Inl e \<Rightarrow> (Inl e, None)
           | Inr df \<Rightarrow> (Inr df, Some df)))"

section \<open>The connection resolver and the start of the script\<close>

text \<open>
  The database driver is an external collaborator: the client constructor, the two
  subscripts \<^verbatim>\<open>client[db_name]\<close> and \<^verbatim>\<open>db[coll_name]\<close>, and the query are its
  operations, each of which returns or raises.
\<close>

record ('c, 'd, 'h) driver =
  MongoClient :: "string \<Rightarrow> py_error + 'c"
  database :: "'c \<Rightarrow> string \<Rightarrow> py_error + 'd"
  collection :: "'d \<Rightarrow> string \<Rightarrow> py_error + 'h"
  aggregate :: "'h \<Rightarrow> py_error + doc list"

text \<open>
  \<^verbatim>\<open>st.secrets.get(K) or os.environ.get(K, default)\<close>. \<open>secrets\<close> is the content of the
  secrets file, \<open>None\<close> when there is no such file: reading a secret then raises.
  Reading the secrets also exports them to the environment, over the variables that
  are there. So the value is the secret when it is present and not empty, else the
  variable of the environment after the export, else the default.
\<close>

definition config_value ::
  "(string \<times> string) list option \<Rightarrow> (string \<times> string) list \<Rightarrow> string \<Rightarrow> string
     \<Rightarrow> py_error + string" where
  "config_value secrets environ key dflt =
     (case secrets of
        None \<Rightarrow> Inl SecretNotFoundError
      | Some sec \<Rightarrow>
          (let environ' = sec @ environ;
               from_environ = (case map_of environ' key of None \<Rightarrow> dflt | Some v \<Rightarrow> v)
           in case map_of sec key of
                Some s \<Rightarrow> if s \<noteq> [] then Inr s else Inr from_environ
              | None \<Rightarrow> Inr from_environ))"

definition MONGO_URI :: "(string \<times> string) list option \<Rightarrow> (string \<times> string) list \<Rightarrow> py_error + string" where
  "MONGO_URI secrets environ = config_value secrets environ ''MONGO_URI'' []"

definition DB_NAME :: "(string \<times> string) list option \<Rightarrow> (string \<times> string) list \<Rightarrow> py_error + string" where
  "DB_NAME secrets environ = config_value secrets environ ''DB_NAME'' ''retail''"

definition COLL_NAME :: "(string \<times> string) list option \<Rightarrow> (string \<times> string) list \<Rightarrow> py_error + string" where
  "COLL_NAME secrets environ = config_value secrets environ ''COLL_NAME'' ''orders''"

text \<open>
  \<^verbatim>\<open>get_collection(uri, db_name, coll_name)\<close>. The second argument and the second
  component of the result are the log of the connection strings a client was
  constructed for, so that a call which constructs no client leaves the log as it was.
\<close>

definition get_collection ::
  "('c, 'd, 'h) driver \<Rightarrow> string list \<Rightarrow> string \<Rightarrow> string \<Rightarrow> string
     \<Rightarrow> (py_error + 'h) \<times> string list" where
  "get_collection drv clients uri db_name coll_name =
     (if uri = [] then (Inl RuntimeError, clients)
      else
        (case MongoClient drv uri of
           Inl e \<Rightarrow> (Inl e, clients @ [uri])
         | Inr client \<Rightarrow>
             (case database drv client db_name of
                Inl e \<Rightarrow> (Inl e, clients @ [uri])
              | Inr db \<Rightarrow> (collection drv db coll_name, clients @ [uri]))))"

text \<open>
  The script from the \<^verbatim>\<open>try\<close> block to the emptiness check: an exception of either call
  ends the run with \<^verbatim>\<open>st.error\<close>, an empty frame ends it with \<^verbatim>\<open>st.warning\<close>, and
  otherwise the page is built from the frame. The result carries the log of clients
  and the cache of the loader after the run.
\<close>

datatype outcome = Stop_error py_error | Stop_no_orders | Continue "doc list"

definition startup ::
  "('c, 'd, 'h) driver \<Rightarrow> (bson \<Rightarrow> string) \<Rightarrow> (bson list \<Rightarrow> py_error + int option list)
     \<Rightarrow> string list \<Rightarrow> doc list option \<Rightarrow> string \<Rightarrow> string \<Rightarrow> string
     \<Rightarrow> outcome \<times> string list \<times> doc list option" where
  "startup drv py_str to_datetime clients cache uri db_name coll_name =
     (case get_collection drv clients uri db_name coll_name of
        (Inl e, clients') \<Rightarrow> (Stop_error e, clients', cache)
      | (Inr coll, clients') \<Rightarrow>
          (case load_orders (aggregate drv) py_str to_datetime cache coll of
             (Inl e, cache') \<Rightarrow> (Stop_error e, clients', cache')
           | (Inr df, cache') \<Rightarrow>
               (if df = [] then Stop_no_orders else Continue df, clients', cache')))"

section \<open>Documents of the expected shape\<close>

text \<open>
  A field of a document is either absent or holds a value. The loader expects
  \<^verbatim>\<open>store\<close> and \<^verbatim>\<open>customer\<close> to hold sub-records and \<^verbatim>\<open>items\<close> to hold a list of
  sub-records whose \<^verbatim>\<open>quantity\<close> is a number and whose \<^verbatim>\<open>category\<close> is a string.
\<close>

definition absent_or :: "(bson \<Rightarrow> bool) \<Rightarrow> doc \<Rightarrow> string \<Rightarrow> bool" where
  "absent_or P d k = (case map_of d k of None \<Rightarrow> True | Some v \<Rightarrow> P v)"

fun is_doc :: "bson \<Rightarrow> bool" where
  "is_doc (BDoc _) = True"
| "is_doc _ = False"

fun is_quantity :: "bson \<Rightarrow> bool" where
  "is_quantity (BNum _) = True"
| "is_quantity (BBool _) = True"
| "is_quantity _ = False"

fun is_str :: "bson \<Rightarrow> bool" where
  "is_str (BStr _) = True"
| "is_str _ = False"

fun is_item :: "bson \<Rightarrow> bool" where
  "is_item (BDoc kv) = (absent_or is_quantity kv ''quantity'' \<and> absent_or is_str kv ''category'')"
| "is_item _ = False"

fun is_items :: "bson \<Rightarrow> bool" where
  "is_items (BArr its) = list_all is_item its"
| "is_items _ = False"

definition shaped :: "doc \<Rightarrow> bool" where
  "shaped d =
     (absent_or is_doc d ''store'' \<and> absent_or is_doc d ''customer'' \<and>
      absent_or is_items d ''items'')"

text \<open>
  The category column in the words of the data model: the set of the items' category
  labels, a missing label read as the empty string, sorted, without duplicates, joined
  by commas.
\<close>

definition items_of :: "doc \<Rightarrow> bson list" where
  "items_of d = (case map_of d ''items'' of Some (BArr its) \<Rightarrow> its | _ \<Rightarrow> [])"

fun item_category :: "bson \<Rightarrow> string" where
  "item_category (BDoc kv) = (case map_of kv ''category'' of Some (BStr s) \<Rightarrow> s | _ \<Rightarrow> [])"
| "item_category _ = []"

definition spec_categories :: "doc \<Rightarrow> string" where
  "spec_categories d = comma_join (sorted_list_of_set (set (map item_category (items_of d))))"

text \<open>
  The flattened row in the words of the data model. A field that is absent from the
  document, or from a sub-record that is there, gives a null cell; an absent
  sub-record gives null cells for all of its fields; the identifier is rendered as
  text; the number of items \<open>n\<close> is the sum of the item quantities as the loader adds
  them up, where an item without a quantity is given the quantity \<open>0\<close> (the function
  \<open>with_quantity\<close>), and is \<open>0\<close> without items; the categories are as above, empty
  without items. The timestamp cell is the one the conversion returns for the row.
\<close>

definition field_or_null :: "doc \<Rightarrow> string \<Rightarrow> bson" where
  "field_or_null d k = (case map_of d k of None \<Rightarrow> BNull | Some v \<Rightarrow> v)"

definition sub_field_or_null :: "doc \<Rightarrow> string \<Rightarrow> string \<Rightarrow> bson" where
  "sub_field_or_null d sub k =
     (case map_of d sub of Some (BDoc kv) \<Rightarrow> field_or_null kv k | _ \<Rightarrow> BNull)"

fun with_quantity :: "bson \<Rightarrow> bson" where
  "with_quantity (BDoc kv) =
     (case map_of kv ''quantity'' of
        None \<Rightarrow> BDoc ((''quantity'', BNum 0) # kv)
      | Some v \<Rightarrow> BDoc kv)"
| "with_quantity v = v"

definition spec_row :: "(bson \<Rightarrow> string) \<Rightarrow> doc \<Rightarrow> bson \<Rightarrow> rat \<Rightarrow> doc" where
  "spec_row py_str d ts n =
     [(''order_id'', BStr (py_str (field_or_null d ''_id''))),
      (''purchase_ts'', ts),
      (''purchase_date'', field_or_null d ''purchase_date''),
      (''purchase_time'', field_or_null d ''purchase_time''),
      (''weekday'', field_or_null d ''weekday''),
      (''hour'', field_or_null d ''hour''),
      (''store_city'', sub_field_or_null d ''store'' ''store_city''),
      (''region'', sub_field_or_null d ''store'' ''region''),
      (''channel'', field_or_null d ''channel''),
      (''payment_method'', field_or_null d ''payment_method''),
      (''loyalty_member'', sub_field_or_null d ''customer'' ''loyalty_member''),
      (''age_band'', sub_field_or_null d ''customer'' ''age_band''),
      (''coupon_used'', field_or_null d ''coupon_used''),
      (''discount_pct'', field_or_null d ''discount_pct''),
      (''subtotal'', field_or_null d ''subtotal''),
      (''discount_amount'', field_or_null d ''discount_amount''),
      (''tax_amount'', field_or_null d ''tax_amount''),
      (''shipping_amount'', field_or_null d ''shipping_amount''),
      (''total_amount'', field_or_null d ''total_amount''),
      (''num_items'', BNum n),
      (''categories'', BStr (spec_categories d))]"

text \<open>Sample library functions and a sample driver, for evaluating the model.\<close>

fun sample_str :: "bson \<Rightarrow> string" where
  "sample_str (BOid h) = h"
| "sample_str (BStr s) = s"
| "sample_str _ = ''None''"

fun sample_timestamp :: "bson \<Rightarrow> int option" where
  "sample_timestamp (BDate t) = Some t"
| "sample_timestamp _ = None"

definition sample_to_datetime :: "bson list \<Rightarrow> py_error + int option list" where
  "sample_to_datetime col = Inr (map sample_timestamp col)"

fun sample_connect :: "string \<Rightarrow> py_error + string" where
  "sample_connect uri = Inr uri"

fun sample_subscript :: "string \<Rightarrow> string \<Rightarrow> py_error + string" where
  "sample_subscript parent name = Inr (parent @ ''/'' @ name)"

fun sample_query :: "doc list \<Rightarrow> string \<Rightarrow> py_error + doc list" where
  "sample_query docs coll = Inr docs"

definition sample_driver :: "doc list \<Rightarrow> (string, string, string) driver" where
  "sample_driver docs =
     \<lparr>MongoClient = sample_connect, database = sample_subscript,
      collection = sample_subscript, aggregate = sample_query docs\<rparr>"

fun failing_query :: "string \<Rightarrow> py_error + doc list" where
  "failing_query coll = Inl PyMongoError"

definition failing_driver :: "(string, string, string) driver" where
  "failing_driver =
     \<lparr>MongoClient = sample_connect, database = sample_subscript,
      collection = sample_subscript, aggregate = failing_query\<rparr>"

section \<open>The filtered frame\<close>

text \<open>
  After the loader the script works on the data frame \<^verbatim>\<open>df\<close>. A row of the frame
  carries the columns that the filters and the aggregates read, at the types of the
  data model: \<open>None\<close> is a null cell (\<^verbatim>\<open>None\<close>, \<^verbatim>\<open>NaN\<close> or \<^verbatim>\<open>NaT\<close>), a timestamp
  counts the seconds since the epoch, an amount is the rational number that the cell
  denotes.
\<close>

record order_row =
  purchase_ts :: "int option"
  weekday :: "string option"
  hour :: "int option"
  region :: "string option"
  channel :: "string option"
  loyalty_member :: "bool option"
  age_band :: "string option"
  discount_pct :: "rat option"
  total_amount :: "rat option"

text \<open>
  A date counts the days since the epoch. \<^verbatim>\<open>pd.to_datetime(date)\<close> is the midnight at
  which the date begins, \<^verbatim>\<open>pd.Timedelta(days=n)\<close> is \<open>n\<close> days in seconds.
\<close>

definition Timedelta_days :: "int \<Rightarrow> int" where
  "Timedelta_days n = n * 86400"

definition to_datetime_date :: "int \<Rightarrow> int" where
  "to_datetime_date d = d * 86400"

text \<open>
  Element-wise operations on columns. A comparison with a null cell is false, and
  \<^verbatim>\<open>isin\<close> is false at a null cell: the offered values never contain a null (the
  options are built with \<^verbatim>\<open>dropna()\<close>, or are \<^verbatim>\<open>[True, False]\<close>).
\<close>

definition series_ge :: "int option list \<Rightarrow> int \<Rightarrow> bool list" where
  "series_ge col x = map (\<lambda>v. case v of None \<Rightarrow> False | Some t \<Rightarrow> x \<le> t) col"

definition series_lt :: "int option list \<Rightarrow> int \<Rightarrow> bool list" where
  "series_lt col x = map (\<lambda>v. case v of None \<Rightarrow> False | Some t \<Rightarrow> t < x) col"

definition series_and :: "bool list \<Rightarrow> bool list \<Rightarrow> bool list" where
  "series_and xs ys = map (\<lambda>p. fst p \<and> snd p) (zip xs ys)"

definition isin :: "'a option list \<Rightarrow> 'a list \<Rightarrow> bool list" where
  "isin col vals = map (\<lambda>v. case v of None \<Rightarrow> False | Some x \<Rightarrow> x \<in> set vals) col"

text \<open>
  The mask after the date filter. \<^verbatim>\<open>date_range\<close> is the tuple returned by the date
  picker; reading its first or second component raises \<^verbatim>\<open>IndexError\<close> when the tuple is
  shorter.
\<close>

fun date_mask :: "order_row list \<Rightarrow> int list \<Rightarrow> py_error + bool list" where
  "date_mask df (d0 # d1 # _) =
     (let mask0 = replicate (length df) True;
          start = to_datetime_date d0;
          end = to_datetime_date d1 + Timedelta_days 1
      in Inr (series_and mask0
               (series_and (series_ge (map purchase_ts df) start)
                           (series_lt (map purchase_ts df) end))))"
| "date_mask df _ = Inl IndexError"

text \<open>The mask after the four optional filters; an empty selection is falsy and skipped.\<close>

definition build_mask ::
  "order_row list \<Rightarrow> int list \<Rightarrow> string list \<Rightarrow> string list \<Rightarrow> bool list \<Rightarrow> string list
     \<Rightarrow> py_error + bool list" where
  "build_mask df date_range regions channels loyalty age =
     raising (date_mask df date_range) (\<lambda>mask0.
       let mask1 = (if regions \<noteq> [] then series_and mask0 (isin (map region df) regions)
                    else mask0);
           mask2 = (if channels \<noteq> [] then series_and mask1 (isin (map channel df) channels)
                    else mask1);
           mask3 = (if loyalty \<noteq> [] then series_and mask2 (isin (map loyalty_member df) loyalty)
                    else mask2);
           mask4 = (if age \<noteq> [] then series_and mask3 (isin (map age_band df) age)
                    else mask3)
       in Inr mask4)"

text \<open>\<^verbatim>\<open>df[mask]\<close>: the rows at which the mask is true, in the order of the frame.\<close>

definition boolean_index :: "'a list \<Rightarrow> bool list \<Rightarrow> 'a list" where
  "boolean_index df msk = map fst (filter snd (zip df msk))"

definition filtered ::
  "order_row list \<Rightarrow> int list \<Rightarrow> string list \<Rightarrow> string list \<Rightarrow> bool list \<Rightarrow> string list
     \<Rightarrow> py_error + order_row list" where
  "filtered df date_range regions channels loyalty age =
     raising (build_mask df date_range regions channels loyalty age)
       (\<lambda>msk. Inr (boolean_index df msk))"

text \<open>
  The filter in the words of the specification: the timestamp lies in the half-open
  interval from the first midnight of the start date to the midnight after the end
  date, a null timestamp never matches, and each selection that is not empty must
  contain the row's value.
\<close>

definition in_date_range :: "int \<Rightarrow> int \<Rightarrow> order_row \<Rightarrow> bool" where
  "in_date_range start_date end_date r =
     (case purchase_ts r of
        None \<Rightarrow> False
      | Some t \<Rightarrow> start_date * 86400 \<le> t \<and> t < (end_date + 1) * 86400)"

definition allowed :: "'a list \<Rightarrow> 'a option \<Rightarrow> bool" where
  "allowed vals v = (vals = [] \<or> v \<in> set (map Some vals))"

definition spec_filter ::
  "int \<Rightarrow> int \<Rightarrow> string list \<Rightarrow> string list \<Rightarrow> bool list \<Rightarrow> string list \<Rightarrow> order_row \<Rightarrow> bool" where
  "spec_filter start_date end_date regions channels loyalty age r =
     (in_date_range start_date end_date r \<and> allowed regions (region r) \<and>
      allowed channels (channel r) \<and> allowed loyalty (loyalty_member r) \<and>
      allowed age (age_band r))"

section \<open>The aggregates\<close>

text \<open>
  The arithmetic of the library is not exact arithmetic: the sum of a column of
  machine integers wraps around, the sum and the mean of a column of floating-point
  numbers round, and so does the product with \<open>100\<close>. What a reduction returns is
  fixed by the cells it is given, in their order, at the type of the column. So the
  reductions are parameters: the sum and the mean of a column (\<^verbatim>\<open>Series.sum\<close>,
  \<^verbatim>\<open>Series.mean\<close>), the sum and the mean of the cells of one group (\<^verbatim>\<open>groupby\<close>,
  \<^verbatim>\<open>resample\<close>, \<^verbatim>\<open>pivot_table\<close>), each on cells of which at least one is not null, and
  the product with \<open>100\<close>.
\<close>

record numerics =
  sum_series :: "rat option list \<Rightarrow> rat"
  mean_series :: "rat option list \<Rightarrow> rat"
  sum_group :: "rat option list \<Rightarrow> rat"
  mean_group :: "rat option list \<Rightarrow> rat"
  times100 :: "rat \<Rightarrow> rat"

text \<open>
  Reductions skip the null cells: the sum of cells that are all null, or of no cells,
  is \<open>0\<close>, and their mean is null (\<^verbatim>\<open>NaN\<close>).
\<close>

fun dropna :: "'a option list \<Rightarrow> 'a list" where
  "dropna [] = []"
| "dropna (None # vs) = dropna vs"
| "dropna (Some x # vs) = x # dropna vs"

definition series_sum :: "numerics \<Rightarrow> rat option list \<Rightarrow> rat" where
  "series_sum N col = (if dropna col = [] then 0 else sum_series N col)"

definition series_mean :: "numerics \<Rightarrow> rat option list \<Rightarrow> rat option" where
  "series_mean N col = (if dropna col = [] then None else Some (mean_series N col))"

definition group_sum :: "numerics \<Rightarrow> rat option list \<Rightarrow> rat" where
  "group_sum N col = (if dropna col = [] then 0 else sum_group N col)"

definition group_mean :: "numerics \<Rightarrow> rat option list \<Rightarrow> rat option" where
  "group_mean N col = (if dropna col = [] then None else Some (mean_group N col))"

definition order_count :: "order_row list \<Rightarrow> nat" where
  "order_count f = length f"

definition total_revenue :: "numerics \<Rightarrow> order_row list \<Rightarrow> rat" where
  "total_revenue N f = series_sum N (map total_amount f)"

definition avg_order_value :: "numerics \<Rightarrow> order_row list \<Rightarrow> rat option" where
  "avg_order_value N f = series_mean N (map total_amount f)"

definition avg_discount_pct :: "numerics \<Rightarrow> order_row list \<Rightarrow> rat option" where
  "avg_discount_pct N f = map_option (times100 N) (series_mean N (map discount_pct f))"

text \<open>
  \<^verbatim>\<open>f.resample("D", on="purchase_ts")["total_amount"].sum().reset_index()\<close>: one bin for
  each calendar day from the day of the earliest timestamp to the day of the latest
  one, labelled by its midnight, holding the sum of the rows of that day. The rows
  are taken in the order of their timestamps, rows with the same timestamp in the
  order of the frame. Rows without a timestamp fall into no bin; a frame without
  timestamps gives the empty series.
\<close>

definition day_of :: "int \<Rightarrow> int" where
  "day_of t = t div 86400"

definition on_day :: "int \<Rightarrow> order_row \<Rightarrow> bool" where
  "on_day d r = (case purchase_ts r of None \<Rightarrow> False | Some t \<Rightarrow> day_of t = d)"

definition days_of :: "order_row list \<Rightarrow> int list" where
  "days_of f = map day_of (dropna (map purchase_ts f))"

definition by_time :: "order_row list \<Rightarrow> order_row list" where
  "by_time f = sort_key (\<lambda>r. the (purchase_ts r)) (filter (\<lambda>r. purchase_ts r \<noteq> None) f)"

definition day_rows :: "order_row list \<Rightarrow> int \<Rightarrow> order_row list" where
  "day_rows f d = filter (on_day d) (by_time f)"

definition day_sum :: "numerics \<Rightarrow> order_row list \<Rightarrow> int \<Rightarrow> rat" where
  "day_sum N f d = group_sum N (map total_amount (day_rows f d))"

definition daily :: "numerics \<Rightarrow> order_row list \<Rightarrow> (int \<times> rat) list" where
  "daily N f =
     (if days_of f = [] then []
      else map (\<lambda>d. (to_datetime_date d, day_sum N f d))
               [Min (set (days_of f)) .. Max (set (days_of f))])"

text \<open>
  The daily series in the words of the specification: one point for each day that is
  present in the data, in chronological order.
\<close>

definition spec_daily_revenue :: "numerics \<Rightarrow> order_row list \<Rightarrow> (int \<times> rat) list" where
  "spec_daily_revenue N f =
     map (\<lambda>d. (to_datetime_date d, day_sum N f d)) (sort (remdups (days_of f)))"

text \<open>
  \<^verbatim>\<open>f.groupby(key)[val].sum()\<close> and \<^verbatim>\<open>.mean()\<close>: one entry for each key that occurs, in
  the order of the keys; rows with a null key belong to no group.
\<close>

definition groupby_sum ::
  "numerics \<Rightarrow> (order_row \<Rightarrow> 'k::linorder option) \<Rightarrow> (order_row \<Rightarrow> rat option) \<Rightarrow> order_row list
     \<Rightarrow> ('k \<times> rat) list" where
  "groupby_sum N key val f =
     map (\<lambda>k. (k, group_sum N (map val (filter (\<lambda>r. key r = Some k) f))))
         (sort (remdups (dropna (map key f))))"

definition groupby_mean ::
  "numerics \<Rightarrow> (order_row \<Rightarrow> 'k::linorder option) \<Rightarrow> (order_row \<Rightarrow> rat option) \<Rightarrow> order_row list
     \<Rightarrow> ('k \<times> rat option) list" where
  "groupby_mean N key val f =
     map (\<lambda>k. (k, group_mean N (map val (filter (\<lambda>r. key r = Some k) f))))
         (sort (remdups (dropna (map key f))))"

text \<open>
  \<^verbatim>\<open>sort_values(ascending=False)\<close>: largest value first, null values last. Entries with
  equal values keep their order here; the library does not promise one.
\<close>

definition sort_values_desc :: "('k \<times> rat) list \<Rightarrow> ('k \<times> rat) list" where
  "sort_values_desc s = sort_key (\<lambda>p. - snd p) s"

definition sort_values_desc_na :: "('k \<times> rat option) list \<Rightarrow> ('k \<times> rat option) list" where
  "sort_values_desc_na s =
     sort_key (\<lambda>p. - the (snd p)) (filter (\<lambda>p. snd p \<noteq> None) s) @ filter (\<lambda>p. snd p = None) s"

definition by_region :: "numerics \<Rightarrow> order_row list \<Rightarrow> (string \<times> rat) list" where
  "by_region N f = sort_values_desc (groupby_sum N region total_amount f)"

definition by_channel :: "numerics \<Rightarrow> order_row list \<Rightarrow> (string \<times> rat) list" where
  "by_channel N f = sort_values_desc (groupby_sum N channel total_amount f)"

definition aov :: "numerics \<Rightarrow> order_row list \<Rightarrow> (string \<times> rat option) list" where
  "aov N f =
     map (\<lambda>p. (if fst p then ''Loyalty'' else ''Non-Loyalty'', snd p))
         (groupby_mean N loyalty_member total_amount f)"

definition disc :: "numerics \<Rightarrow> order_row list \<Rightarrow> (string \<times> rat option) list" where
  "disc N f =
     sort_values_desc_na
       (map (\<lambda>p. (fst p, map_option (times100 N) (snd p)))
            (groupby_mean N channel discount_pct f))"

text \<open>
  A two-dimensional table: the row labels, the column labels and the cells row by row.
  \<^verbatim>\<open>pivot_table(index="weekday", columns="hour", values="total_amount", aggfunc="sum")\<close>
  has a row for each weekday and a column for each hour that occur in rows where both
  are present; the cell of a pair that occurs holds the sum of its rows, the cell of a
  pair that does not occur is null.
\<close>

record table =
  index :: "string list"
  columns :: "int list"
  cells :: "rat option list list"

definition pivot_table :: "numerics \<Rightarrow> order_row list \<Rightarrow> table" where
  "pivot_table N f =
     (let keyed = filter (\<lambda>r. weekday r \<noteq> None \<and> hour r \<noteq> None) f;
          idx = sort (remdups (dropna (map weekday keyed)));
          cols = sort (remdups (dropna (map hour keyed)))
      in \<lparr>index = idx, columns = cols,
          cells = map (\<lambda>w. map (\<lambda>h.
                    let grp = filter (\<lambda>r. weekday r = Some w \<and> hour r = Some h) keyed
                    in if grp = [] then None else Some (group_sum N (map total_amount grp)))
                  cols) idx\<rparr>)"

text \<open>\<^verbatim>\<open>fillna(0)\<close>: every null cell becomes \<open>0\<close>.\<close>

definition fillna :: "rat \<Rightarrow> table \<Rightarrow> table" where
  "fillna x t = t\<lparr>cells := map (map (\<lambda>c. case c of None \<Rightarrow> Some x | Some v \<Rightarrow> Some v)) (cells t)\<rparr>"

text \<open>
  \<^verbatim>\<open>reindex(labels)\<close>: the rows in the order of the labels; a label of the table keeps
  its row, a label that the table does not have gets a row of null cells, and a row
  whose label is not asked for is dropped.
\<close>

definition reindex :: "table \<Rightarrow> string list \<Rightarrow> table" where
  "reindex t labels =
     \<lparr>index = labels, columns = columns t,
      cells = map (\<lambda>l. case map_of (zip (index t) (cells t)) l of
                          None \<Rightarrow> replicate (length (columns t)) None
                        | Some row \<Rightarrow> row) labels\<rparr>"

definition wd_order :: "string list" where
  "wd_order = [''Monday'', ''Tuesday'', ''Wednesday'', ''Thursday'', ''Friday'', ''Saturday'',
               ''Sunday'']"

definition heat :: "numerics \<Rightarrow> order_row list \<Rightarrow> table" where
  "heat N f = reindex (fillna 0 (pivot_table N f)) wd_order"

text \<open>Everything that the page computes from the filtered frame.\<close>

record aggregates =
  agg_order_count :: nat
  agg_total_revenue :: rat
  agg_avg_order_value :: "rat option"
  agg_avg_discount_pct :: "rat option"
  agg_daily :: "(int \<times> rat) list"
  agg_by_region :: "(string \<times> rat) list"
  agg_by_channel :: "(string \<times> rat) list"
  agg_aov :: "(string \<times> rat option) list"
  agg_disc :: "(string \<times> rat option) list"
  agg_heat :: table

definition page_aggregates :: "numerics \<Rightarrow> order_row list \<Rightarrow> py_error + aggregates" where
  "page_aggregates N f =
     Inr \<lparr>agg_order_count = order_count f, agg_total_revenue = total_revenue N f,
          agg_avg_order_value = avg_order_value N f,
          agg_avg_discount_pct = avg_discount_pct N f,
          agg_daily = daily N f, agg_by_region = by_region N f,
          agg_by_channel = by_channel N f,
          agg_aov = aov N f, agg_disc = disc N f, agg_heat = heat N f\<rparr>"

text \<open>
  Sample rows and sample arithmetic, for evaluating the model: exact sums and means,
  which are the library's on small whole numbers.
\<close>

definition exact_mean :: "rat option list \<Rightarrow> rat" where
  "exact_mean col = sum_list (dropna col) / of_nat (length (dropna col))"

definition exact_times100 :: "rat \<Rightarrow> rat" where
  "exact_times100 x = x * 100"

definition exact_sum :: "rat option list \<Rightarrow> rat" where
  "exact_sum col = sum_list (dropna col)"

definition sample_numerics :: numerics where
  "sample_numerics =
     \<lparr>sum_series = exact_sum, mean_series = exact_mean, sum_group = exact_sum,
      mean_group = exact_mean, times100 = exact_times100\<rparr>"

definition sample_row :: "int \<Rightarrow> string \<Rightarrow> int \<Rightarrow> rat \<Rightarrow> order_row" where
  "sample_row t wd h amount =
     \<lparr>purchase_ts = Some t, weekday = Some wd, hour = Some h, region = Some ''East'',
      channel = Some ''web'', loyalty_member = Some True, age_band = Some ''25-34'',
      discount_pct = Some 0, total_amount = Some amount\<rparr>"

section \<open>Properties of the loader and the connection resolver\<close>

lemma raising_Inr: "raising m k = Inr r \<longleftrightarrow> (\<exists>x. m = Inr x \<and> k x = Inr r)"
  by (cases m) simp_all

lemma sum_quantity_ok: "list_all is_item its \<Longrightarrow> \<exists>q. sum_quantity acc its = Inr q"
proof (induction its arbitrary: acc)
  case Nil then show ?case by simp
next
  case (Cons it its)
  then obtain kv where it: "it = BDoc kv" and q: "absent_or is_quantity kv ''quantity''"
    by (cases it) auto
  show ?case
  proof (cases "map_of kv ''quantity''")
    case None
    with Cons it show ?thesis by (simp add: dict_get_default_def)
  next
    case (Some v)
    with q have "is_quantity v" by (simp add: absent_or_def)
    with Some Cons it show ?thesis by (cases v) (simp_all add: dict_get_default_def)
  qed
qed

lemma item_label: "is_item it \<Longrightarrow> attr_get_default it ''category'' (BStr []) = Inr (BStr (item_category it))"
  by (cases it) (auto simp: absent_or_def dict_get_default_def split: option.splits bson.splits)

lemma category_labels_ok:
  "list_all is_item its \<Longrightarrow> category_labels its = Inr (map (\<lambda>it. BStr (item_category it)) its)"
  by (induction its) (simp_all add: item_label)

lemma str_values_map: "str_values (map (\<lambda>x. BStr (f x)) xs) = Some (map f xs)"
  by (induction xs) simp_all

lemma join_sorted_ok:
  "join_sorted (map (\<lambda>x. BStr (f x)) xs) = Inr (comma_join (sort (remdups (map f xs))))"
  by (simp add: join_sorted_def str_values_map)

lemma category_labels_strs:
  "category_labels its = Inr labels \<Longrightarrow> str_values labels = Some ss \<Longrightarrow> ss = map item_category its"
proof (induction its arbitrary: labels ss)
  case Nil then show ?case by auto
next
  case (Cons it its)
  show ?case
  proof (cases it)
    case (BDoc kv)
    with Cons.prems(1) obtain vs where
      vs: "category_labels its = Inr vs" and
      l: "labels = dict_get_default kv ''category'' (BStr []) # vs"
      by (auto split: if_splits sum.splits)
    from Cons.prems(2) l obtain s ss' where
      s: "dict_get_default kv ''category'' (BStr []) = BStr s" and
      ss': "str_values vs = Some ss'" and ss: "ss = s # ss'"
      by (cases "dict_get_default kv ''category'' (BStr [])") (auto split: option.splits)
    from s have "item_category it = s"
      using BDoc by (auto simp: dict_get_default_def split: option.splits bson.splits)
    with Cons.IH[OF vs ss'] ss show ?thesis by simp
  qed (use Cons.prems in simp_all)
qed

lemma py_iter_items:
  "py_iter (dict_get_default d ''items'' (BArr [])) = Inr its \<Longrightarrow> category_labels its = Inr labels
   \<Longrightarrow> its = items_of d"
proof (cases "dict_get_default d ''items'' (BArr [])")
  case (BArr xs)
  assume "py_iter (dict_get_default d ''items'' (BArr [])) = Inr its"
  with BArr show ?thesis
    by (auto simp: items_of_def dict_get_default_def split: option.splits)
next
  case (BStr s)
  assume a: "py_iter (dict_get_default d ''items'' (BArr [])) = Inr its"
    and b: "category_labels its = Inr labels"
  from a BStr have its: "its = map (\<lambda>c. BStr [c]) s" by simp
  with b have "s = []" by (cases s) simp_all
  with its BStr show ?thesis
    by (auto simp: items_of_def dict_get_default_def split: option.splits)
next
  case (BDoc kv)
  assume a: "py_iter (dict_get_default d ''items'' (BArr [])) = Inr its"
    and b: "category_labels its = Inr labels"
  from a BDoc have its: "its = map (\<lambda>p. BStr (fst p)) kv" by simp
  with b have "kv = []" by (cases kv) simp_all
  with its BDoc show ?thesis
    by (auto simp: items_of_def dict_get_default_def split: option.splits)
qed simp_all

lemma flatten_doc_categories:
  assumes "flatten_doc py_str d = Inr r"
  shows "dict_get r ''categories'' = BStr (spec_categories d)"
proof -
  from assms obtain its num labels cats where
    its: "py_iter (dict_get_default d ''items'' (BArr [])) = Inr its" and
    labels: "category_labels its = Inr labels" and
    cats: "join_sorted labels = Inr cats" and
    r: "dict_get r ''categories'' = BStr cats"
    unfolding flatten_doc_def Let_def raising_Inr
    by (auto simp: dict_get_def)
  from cats obtain ss where ss: "str_values labels = Some ss"
    and c: "cats = comma_join (sort (remdups ss))"
    by (auto simp: join_sorted_def split: option.splits)
  from category_labels_strs[OF labels ss] py_iter_items[OF its labels]
  have "ss = map item_category (items_of d)" by simp
  with c r show ?thesis
    unfolding spec_categories_def sorted_list_of_set_sort_remdups by simp
qed

lemma sum_quantity_with_quantity:
  "sum_quantity acc (map with_quantity its) = sum_quantity acc its"
proof (induction its arbitrary: acc)
  case Nil then show ?case by simp
next
  case (Cons it its)
  show ?case
  proof (cases it)
    case (BDoc kv)
    then show ?thesis
      using Cons.IH
      by (cases "map_of kv ''quantity''")
         (simp_all add: dict_get_default_def split: bson.splits)
  qed (simp_all add: Cons.IH)
qed

lemma dict_get_field: "dict_get d k = field_or_null d k"
  by (simp add: dict_get_def field_or_null_def)

lemma flatten_doc_shaped:
  assumes "shaped d"
  shows "\<exists>n. sum_quantity 0 (map with_quantity (items_of d)) = Inr n \<and>
             flatten_doc py_str d = Inr (spec_row py_str d (field_or_null d ''purchase_ts'') n)"
proof -
  from assms have st: "\<exists>kv. dict_get_default d ''store'' (BDoc []) = BDoc kv \<and>
      (\<forall>k. dict_get kv k = sub_field_or_null d ''store'' k)"
    by (cases "map_of d ''store''")
       (auto simp: shaped_def absent_or_def dict_get_default_def sub_field_or_null_def
          dict_get_def field_or_null_def elim: is_doc.elims)
  from assms have cu: "\<exists>kv. dict_get_default d ''customer'' (BDoc []) = BDoc kv \<and>
      (\<forall>k. dict_get kv k = sub_field_or_null d ''customer'' k)"
    by (cases "map_of d ''customer''")
       (auto simp: shaped_def absent_or_def dict_get_default_def sub_field_or_null_def
          dict_get_def field_or_null_def elim: is_doc.elims)
  from assms have "dict_get_default d ''items'' (BArr []) = BArr (items_of d) \<and>
      list_all is_item (items_of d)"
    by (cases "map_of d ''items''")
       (auto simp: shaped_def absent_or_def dict_get_default_def items_of_def
          elim: is_items.elims)
  then have it: "dict_get_default d ''items'' (BArr []) = BArr (items_of d)"
    and its: "list_all is_item (items_of d)" by simp_all
  from st obtain skv where skv: "dict_get_default d ''store'' (BDoc []) = BDoc skv"
    and sk: "\<And>k. dict_get skv k = sub_field_or_null d ''store'' k" by blast
  from cu obtain ckv where ckv: "dict_get_default d ''customer'' (BDoc []) = BDoc ckv"
    and ck: "\<And>k. dict_get ckv k = sub_field_or_null d ''customer'' k" by blast
  from sum_quantity_ok[OF its] obtain n where
    q: "sum_quantity 0 (items_of d) = Inr n" by blast
  then have n: "sum_quantity 0 (map with_quantity (items_of d)) = Inr n"
    by (simp add: sum_quantity_with_quantity)
  have c: "comma_join (sort (remdups (map item_category (items_of d)))) = spec_categories d"
    unfolding spec_categories_def sorted_list_of_set_sort_remdups by simp
  have "flatten_doc py_str d = Inr (spec_row py_str d (field_or_null d ''purchase_ts'') n)"
    unfolding flatten_doc_def Let_def spec_row_def
    by (simp add: it skv ckv q category_labels_ok[OF its] join_sorted_ok c dict_get_field
          sk[unfolded dict_get_field] ck[unfolded dict_get_field])
  with n show ?thesis by blast
qed

lemma flatten_docs_length:
  "flatten_docs py_str docs = Inr rows \<Longrightarrow> length rows = length docs"
  by (induction docs arbitrary: rows) (auto split: sum.splits)

lemma flatten_docs_shaped:
  "list_all shaped docs \<Longrightarrow>
   \<exists>rows. flatten_docs py_str docs = Inr rows \<and>
     list_all2 (\<lambda>d r. \<exists>n. sum_quantity 0 (map with_quantity (items_of d)) = Inr n \<and>
                      r = spec_row py_str d (field_or_null d ''purchase_ts'') n) docs rows"
proof (induction docs)
  case Nil then show ?case by simp
next
  case (Cons d ds)
  then obtain rows where rows: "flatten_docs py_str ds = Inr rows"
    "list_all2 (\<lambda>d r. \<exists>n. sum_quantity 0 (map with_quantity (items_of d)) = Inr n \<and>
                      r = spec_row py_str d (field_or_null d ''purchase_ts'') n) ds rows"
    by auto
  from Cons.prems flatten_doc_shaped[of d py_str] obtain n where
    "sum_quantity 0 (map with_quantity (items_of d)) = Inr n"
    "flatten_doc py_str d = Inr (spec_row py_str d (field_or_null d ''purchase_ts'') n)"
    by auto
  with rows show ?case by auto
qed

lemma set_cell_spec_row:
  "set_cell ''purchase_ts'' c (spec_row py_str d c0 n) = spec_row py_str d c n"
  by (simp add: set_cell_def spec_row_def)

lemma purchase_ts_spec_row: "dict_get (spec_row py_str d c n) ''purchase_ts'' = c"
  by (simp add: dict_get_def spec_row_def)

lemma load_orders_body_empty_iff:
  "load_orders_body agg py_str to_datetime coll = Inr [] \<longleftrightarrow> agg coll = Inr []"
proof
  assume "agg coll = Inr []"
  then show "load_orders_body agg py_str to_datetime coll = Inr []"
    by (simp add: load_orders_body_def)
next
  assume b: "load_orders_body agg py_str to_datetime coll = Inr []"
  then obtain docs where docs: "agg coll = Inr docs"
    by (auto simp: load_orders_body_def raising_Inr)
  show "agg coll = Inr []"
  proof (cases "docs = []")
    case True
    with docs show ?thesis by simp
  next
    case False
    with b docs obtain rows ts where rows: "flatten_docs py_str docs = Inr rows"
      and a: "assign_purchase_ts rows ts = Inr []"
      by (auto simp: load_orders_body_def raising_Inr)
    from a have "rows = []"
      by (auto simp: assign_purchase_ts_def split: if_splits)
    with flatten_docs_length[OF rows] False show ?thesis by simp
  qed
qed

text \<open>
  Claim C5, as amended. On a call that runs the body of the loader (no frame is
  cached), when every document of the query result has the expected shape (\<^verbatim>\<open>store\<close>
  and \<^verbatim>\<open>customer\<close> absent or sub-records, \<^verbatim>\<open>items\<close> absent or a list of sub-records
  with numeric quantities and string categories) and the timestamp conversion returns
  a column of as many cells in which the cell of an absent timestamp is null, the
  loader does not raise and returns exactly one row per document. Each row is the
  row of the data model: a field absent from the document or from a sub-record that
  is there gives a null cell, an absent sub-record gives null cells, an item without
  quantity counts \<open>0\<close>, absent items give \<open>0\<close> items and no categories, and an absent
  timestamp gives a null cell.
\<close>

theorem load_orders_row_per_shaped_doc:
  assumes "agg coll = Inr docs" and "list_all shaped docs"
    and "to_datetime (map (\<lambda>d. field_or_null d ''purchase_ts'') docs) = Inr ts"
    and "length ts = length docs"
    and "\<forall>i<length docs. map_of (docs ! i) ''purchase_ts'' = None \<longrightarrow> ts ! i = None"
  shows "\<exists>rows. load_orders agg py_str to_datetime None coll = (Inr rows, Some rows) \<and>
           length rows = length docs \<and>
           (\<forall>i<length docs.
              (\<exists>n. sum_quantity 0 (map with_quantity (items_of (docs ! i))) = Inr n \<and>
                   rows ! i = spec_row py_str (docs ! i) (ts_cell (ts ! i)) n) \<and>
              (map_of (docs ! i) ''purchase_ts'' = None
                 \<longrightarrow> dict_get (rows ! i) ''purchase_ts'' = BNull))"
proof (cases "docs = []")
  case True
  with assms(1) show ?thesis
    by (simp add: load_orders_def load_orders_body_def)
next
  case False
  from flatten_docs_shaped[OF assms(2), of py_str] obtain raw where
    raw: "flatten_docs py_str docs = Inr raw" and
    r2: "list_all2 (\<lambda>d r. \<exists>n. sum_quantity 0 (map with_quantity (items_of d)) = Inr n \<and>
                      r = spec_row py_str d (field_or_null d ''purchase_ts'') n) docs raw"
    by blast
  from r2 have len: "length raw = length docs" by (simp add: list_all2_lengthD)
  have nth: "\<exists>n. sum_quantity 0 (map with_quantity (items_of (docs ! i))) = Inr n \<and>
      raw ! i = spec_row py_str (docs ! i) (field_or_null (docs ! i) ''purchase_ts'') n"
    if "i < length docs" for i
    using r2 that by (simp add: list_all2_conv_all_nth)
  have col: "map (\<lambda>r. dict_get r ''purchase_ts'') raw
               = map (\<lambda>d. field_or_null d ''purchase_ts'') docs"
  proof (rule nth_equalityI)
    show "length (map (\<lambda>r. dict_get r ''purchase_ts'') raw)
            = length (map (\<lambda>d. field_or_null d ''purchase_ts'') docs)"
      by (simp add: len)
  next
    fix i assume "i < length (map (\<lambda>r. dict_get r ''purchase_ts'') raw)"
    then have i: "i < length docs" by (simp add: len)
    with nth[OF i] show "map (\<lambda>r. dict_get r ''purchase_ts'') raw ! i
            = map (\<lambda>d. field_or_null d ''purchase_ts'') docs ! i"
      by (auto simp: len purchase_ts_spec_row)
  qed
  define rows where
    "rows = map (\<lambda>p. set_cell ''purchase_ts'' (ts_cell (snd p)) (fst p)) (zip raw ts)"
  have body: "load_orders_body agg py_str to_datetime coll = Inr rows"
    using assms(1,3,4) False raw col len
    by (simp add: load_orders_body_def assign_purchase_ts_def rows_def)
  have lrows: "length rows = length docs"
    by (simp add: rows_def len assms(4))
  have cell: "(\<exists>n. sum_quantity 0 (map with_quantity (items_of (docs ! i))) = Inr n \<and>
                   rows ! i = spec_row py_str (docs ! i) (ts_cell (ts ! i)) n) \<and>
              (map_of (docs ! i) ''purchase_ts'' = None
                 \<longrightarrow> dict_get (rows ! i) ''purchase_ts'' = BNull)"
    if i: "i < length docs" for i
  proof -
    from nth[OF i] obtain n where
      n: "sum_quantity 0 (map with_quantity (items_of (docs ! i))) = Inr n" and
      r: "raw ! i = spec_row py_str (docs ! i) (field_or_null (docs ! i) ''purchase_ts'') n"
      by blast
    from i have "rows ! i = set_cell ''purchase_ts'' (ts_cell (ts ! i)) (raw ! i)"
      by (simp add: rows_def len assms(4))
    with r have ri: "rows ! i = spec_row py_str (docs ! i) (ts_cell (ts ! i)) n"
      by (simp add: set_cell_spec_row)
    moreover have "dict_get (rows ! i) ''purchase_ts'' = BNull"
      if "map_of (docs ! i) ''purchase_ts'' = None"
      using assms(5) i that ri by (simp add: purchase_ts_spec_row ts_cell_def)
    ultimately show ?thesis using n by blast
  qed
  from body have "load_orders agg py_str to_datetime None coll = (Inr rows, Some rows)"
    by (simp add: load_orders_def)
  with lrows cell show ?thesis by blast
qed

text \<open>
  The amended claim C5 at two documents: an empty one, and one with an empty
  \<^verbatim>\<open>store\<close> sub-record and an item without quantity.
\<close>

theorem load_orders_row_per_shaped_doc_witness:
  "sample_query [[], [(''store'', BDoc []), (''items'', BArr [BDoc [(''category'', BStr ''Hats'')]])]]
     ''orders''
     = Inr [[], [(''store'', BDoc []), (''items'', BArr [BDoc [(''category'', BStr ''Hats'')]])]] \<and>
   list_all shaped
     [[], [(''store'', BDoc []), (''items'', BArr [BDoc [(''category'', BStr ''Hats'')]])]] \<and>
   sample_to_datetime
     (map (\<lambda>d. field_or_null d ''purchase_ts'')
        [[], [(''store'', BDoc []), (''items'', BArr [BDoc [(''category'', BStr ''Hats'')]])]])
     = Inr [None, None] \<and>
   (\<exists>rows. load_orders
              (sample_query
                 [[], [(''store'', BDoc []), (''items'', BArr [BDoc [(''category'', BStr ''Hats'')]])]])
              sample_str sample_to_datetime None ''orders'' = (Inr rows, Some rows) \<and>
           length rows = 2 \<and>
           rows ! 0 = spec_row sample_str [] BNull 0 \<and>
           rows ! 1 = spec_row sample_str
                        [(''store'', BDoc []), (''items'', BArr [BDoc [(''category'', BStr ''Hats'')]])]
                        BNull 0 \<and>
           dict_get (rows ! 1) ''store_city'' = BNull \<and>
           dict_get (rows ! 1) ''num_items'' = BNum 0 \<and>
           dict_get (rows ! 1) ''purchase_ts'' = BNull)"
proof -
  let ?docs = "[[], [(''store'', BDoc []), (''items'', BArr [BDoc [(''category'', BStr ''Hats'')]])]]"
  have q: "sample_query ?docs ''orders'' = Inr ?docs" by simp
  have s: "list_all shaped ?docs" by (simp add: shaped_def absent_or_def)
  have t: "sample_to_datetime (map (\<lambda>d. field_or_null d ''purchase_ts'') ?docs)
             = Inr [None, None]"
    by (simp add: sample_to_datetime_def field_or_null_def)
  have l: "length [None :: int option, None] = length ?docs" by simp
  have n: "\<forall>i<length ?docs. map_of (?docs ! i) ''purchase_ts'' = None
             \<longrightarrow> [None :: int option, None] ! i = None"
    by (simp add: less_Suc_eq numeral_2_eq_2)
  from load_orders_row_per_shaped_doc
         [where agg = "sample_query ?docs" and coll = "''orders''" and docs = ?docs
            and to_datetime = sample_to_datetime and ts = "[None, None]"
            and py_str = sample_str, OF q s t l n]
  obtain rows where
    r: "load_orders (sample_query ?docs) sample_str sample_to_datetime None ''orders''
          = (Inr rows, Some rows)" and
    len: "length rows = length ?docs" and
    c: "\<forall>i<length ?docs.
          (\<exists>n. sum_quantity 0 (map with_quantity (items_of (?docs ! i))) = Inr n \<and>
               rows ! i = spec_row sample_str (?docs ! i) (ts_cell ([None, None] ! i)) n) \<and>
          (map_of (?docs ! i) ''purchase_ts'' = None
             \<longrightarrow> dict_get (rows ! i) ''purchase_ts'' = BNull)"
    by blast
  from c have c0: "rows ! 0 = spec_row sample_str [] BNull 0"
    by (auto simp: items_of_def ts_cell_def dest!: spec[of _ 0])
  from c have c1: "rows ! 1 = spec_row sample_str (?docs ! 1) BNull 0"
    by (auto simp: items_of_def ts_cell_def dict_get_default_def dest!: spec[of _ 1])
  have d: "dict_get (spec_row sample_str (?docs ! 1) BNull 0) ''store_city'' = BNull"
    "dict_get (spec_row sample_str (?docs ! 1) BNull 0) ''num_items'' = BNum 0"
    "dict_get (spec_row sample_str (?docs ! 1) BNull 0) ''purchase_ts'' = BNull"
    by (simp_all add: spec_row_def dict_get_def sub_field_or_null_def field_or_null_def)
  from q s t r len c0 c1 d show ?thesis by auto
qed

text \<open>
  Claim C5 as stated fails: a document whose \<^verbatim>\<open>store\<close> field is present and null makes
  the loader raise \<^verbatim>\<open>AttributeError\<close>, since the default of \<^verbatim>\<open>d.get("store",{})\<close>
  is used for an absent key only.
\<close>

theorem load_orders_null_store_raises:
  "load_orders (sample_query [[(''store'', BNull)]]) sample_str sample_to_datetime None ''orders''
     = (Inl AttributeError, None)"
  by (simp add: load_orders_def load_orders_body_def flatten_doc_def dict_get_default_def)

text \<open>
  Claim C9. Whenever a document is flattened, the \<^verbatim>\<open>categories\<close> column of its row is
  the sorted, duplicate-free, comma-joined set of the items' category labels, a missing
  label counting as the empty string; and every document of the expected shape is
  flattened. The order is the one of Python's string comparison, by character codes.
\<close>

theorem categories_sorted_dedup_joined:
  "(shaped d \<longrightarrow> (\<exists>r. flatten_doc py_str d = Inr r)) \<and>
   (\<forall>r. flatten_doc py_str d = Inr r \<longrightarrow> dict_get r ''categories'' = BStr (spec_categories d))"
  using flatten_doc_shaped[of d py_str] flatten_doc_categories[of py_str d] by blast

lemma shoes_hats:
  "spec_categories [(''items'', BArr [BDoc [(''category'', BStr ''Shoes'')],
        BDoc [(''category'', BStr ''Shoes'')], BDoc [(''category'', BStr ''Hats'')]])] = ''Hats,Shoes''"
  unfolding spec_categories_def sorted_list_of_set_sort_remdups items_of_def 
  by code_simp

text \<open>
  Claim C9 at the items with categories Shoes, Shoes, Hats: the column holds
  \<^verbatim>\<open>Hats,Shoes\<close>.
\<close>

theorem categories_sorted_dedup_joined_witness:
  "shaped [(''items'', BArr [BDoc [(''category'', BStr ''Shoes'')],
        BDoc [(''category'', BStr ''Shoes'')], BDoc [(''category'', BStr ''Hats'')]])] \<and>
   (\<exists>r. flatten_doc sample_str [(''items'', BArr [BDoc [(''category'', BStr ''Shoes'')],
        BDoc [(''category'', BStr ''Shoes'')], BDoc [(''category'', BStr ''Hats'')]])] = Inr r \<and>
        dict_get r ''categories'' = BStr ''Hats,Shoes'')"
  using categories_sorted_dedup_joined
          [of "[(''items'', BArr [BDoc [(''category'', BStr ''Shoes'')],
        BDoc [(''category'', BStr ''Shoes'')], BDoc [(''category'', BStr ''Hats'')]])]" sample_str]
  by (auto simp: shoes_hats shaped_def absent_or_def)

text \<open>
  Claim C6. When the query returns no documents the loader returns the empty frame,
  not an exception, and on a call that runs the query it returns the empty frame only
  then. The script treats the empty frame as a state of its own: an exception of the
  resolver or of the loader ends the run in the error state, the empty frame ends it
  in the state of the warning, and a frame with rows lets the run continue with that
  frame.
\<close>

theorem startup_distinguishes_empty_frame:
  "(aggregate drv coll = Inr [] \<longrightarrow>
      load_orders (aggregate drv) py_str to_datetime None coll = (Inr [], Some [])) \<and>
   (load_orders (aggregate drv) py_str to_datetime None coll = (Inr [], cache')
      \<longrightarrow> aggregate drv coll = Inr []) \<and>
   (get_collection drv clients uri db_name coll_name = (Inl e, clients')
      \<longrightarrow> startup drv py_str to_datetime clients cache uri db_name coll_name
            = (Stop_error e, clients', cache)) \<and>
   (get_collection drv clients uri db_name coll_name = (Inr coll, clients') \<and>
    load_orders (aggregate drv) py_str to_datetime cache coll = (Inl e, cache')
      \<longrightarrow> startup drv py_str to_datetime clients cache uri db_name coll_name
            = (Stop_error e, clients', cache')) \<and>
   (get_collection drv clients uri db_name coll_name = (Inr coll, clients') \<and>
    load_orders (aggregate drv) py_str to_datetime cache coll = (Inr [], cache')
      \<longrightarrow> startup drv py_str to_datetime clients cache uri db_name coll_name
            = (Stop_no_orders, clients', cache')) \<and>
   (get_collection drv clients uri db_name coll_name = (Inr coll, clients') \<and>
    load_orders (aggregate drv) py_str to_datetime cache coll = (Inr df, cache') \<and> df \<noteq> []
      \<longrightarrow> startup drv py_str to_datetime clients cache uri db_name coll_name
            = (Continue df, clients', cache'))"
proof -
  have 1: "load_orders (aggregate drv) py_str to_datetime None coll = (Inr [], Some [])"
    if "aggregate drv coll = Inr []"
    using that by (simp add: load_orders_def load_orders_body_def)
  have 2: "aggregate drv coll = Inr []"
    if "load_orders (aggregate drv) py_str to_datetime None coll = (Inr [], cache')"
  proof -
    from that have "load_orders_body (aggregate drv) py_str to_datetime coll = Inr []"
      by (auto simp: load_orders_def split: sum.splits)
    then show ?thesis by (simp add: load_orders_body_empty_iff)
  qed
  from 1 2 show ?thesis by (simp add: startup_def)
qed

text \<open>
  Claim C6 on the sample drivers: an empty collection, an empty connection string, a
  failing query and a collection of one document give the warning, the two error
  stops and the continuation.
\<close>

theorem startup_distinguishes_empty_frame_witness:
  "aggregate (sample_driver []) ''mongodb://h/retail/orders'' = Inr [] \<and>
   load_orders (aggregate (sample_driver [])) sample_str sample_to_datetime None
     ''mongodb://h/retail/orders'' = (Inr [], Some []) \<and>
   startup (sample_driver []) sample_str sample_to_datetime [] None ''mongodb://h'' ''retail''
     ''orders'' = (Stop_no_orders, [''mongodb://h''], Some []) \<and>
   startup (sample_driver []) sample_str sample_to_datetime [] None [] ''retail'' ''orders''
     = (Stop_error RuntimeError, [], None) \<and>
   startup failing_driver sample_str sample_to_datetime [] None ''mongodb://h'' ''retail''
     ''orders'' = (Stop_error PyMongoError, [''mongodb://h''], None) \<and>
   startup (sample_driver [[]]) sample_str sample_to_datetime [] None ''mongodb://h'' ''retail''
     ''orders'' = (Continue [spec_row sample_str [] BNull 0], [''mongodb://h''],
                   Some [spec_row sample_str [] BNull 0])"
proof -
  have g: "get_collection (sample_driver docs) [] ''mongodb://h'' ''retail'' ''orders''
     = (Inr ''mongodb://h/retail/orders'', [''mongodb://h''])" for docs
    by (simp add: get_collection_def sample_driver_def)
  have gf: "get_collection failing_driver [] ''mongodb://h'' ''retail'' ''orders''
     = (Inr ''mongodb://h/retail/orders'', [''mongodb://h''])"
    by (simp add: get_collection_def failing_driver_def)
  have g0: "get_collection (sample_driver []) [] [] ''retail'' ''orders''
     = (Inl RuntimeError, [])"
    by (simp add: get_collection_def)
  have a: "aggregate (sample_driver []) ''mongodb://h/retail/orders'' = Inr []"
    by (simp add: sample_driver_def)
  have lf: "load_orders (aggregate failing_driver) sample_str sample_to_datetime None
      ''mongodb://h/retail/orders'' = (Inl PyMongoError, None)"
    by (simp add: load_orders_def load_orders_body_def failing_driver_def)
  have l1: "load_orders (aggregate (sample_driver [[]])) sample_str sample_to_datetime None
      ''mongodb://h/retail/orders''
        = (Inr [spec_row sample_str [] BNull 0], Some [spec_row sample_str [] BNull 0])"
    by (simp add: load_orders_def load_orders_body_def sample_driver_def flatten_doc_def
          dict_get_default_def dict_get_def join_sorted_def sample_to_datetime_def
          assign_purchase_ts_def set_cell_def ts_cell_def spec_row_def field_or_null_def
          sub_field_or_null_def spec_categories_def items_of_def)
  note t = startup_distinguishes_empty_frame
  from t[of "sample_driver []" "''mongodb://h/retail/orders''" sample_str sample_to_datetime
           "Some []" "[]" "''mongodb://h''" "''retail''" "''orders''" RuntimeError
           "[''mongodb://h'']" None "[]"] a g
  have e1: "load_orders (aggregate (sample_driver [])) sample_str sample_to_datetime None
     ''mongodb://h/retail/orders'' = (Inr [], Some [])"
    and e2: "startup (sample_driver []) sample_str sample_to_datetime [] None ''mongodb://h''
     ''retail'' ''orders'' = (Stop_no_orders, [''mongodb://h''], Some [])"
    by simp_all
  from t[of "sample_driver []" "''mongodb://h/retail/orders''" sample_str sample_to_datetime
           None "[]" "[]" "''retail''" "''orders''" RuntimeError "[]" None "[]"] g0
  have e3: "startup (sample_driver []) sample_str sample_to_datetime [] None [] ''retail''
     ''orders'' = (Stop_error RuntimeError, [], None)"
    by simp
  from t[of failing_driver "''mongodb://h/retail/orders''" sample_str sample_to_datetime
           None "[]" "''mongodb://h''" "''retail''" "''orders''" PyMongoError
           "[''mongodb://h'']" None "[]"] gf lf
  have e4: "startup failing_driver sample_str sample_to_datetime [] None ''mongodb://h''
     ''retail'' ''orders'' = (Stop_error PyMongoError, [''mongodb://h''], None)"
    by simp
  from t[of "sample_driver [[]]" "''mongodb://h/retail/orders''" sample_str sample_to_datetime
           "Some [spec_row sample_str [] BNull 0]" "[]" "''mongodb://h''" "''retail''"
           "''orders''" RuntimeError "[''mongodb://h'']" None
           "[spec_row sample_str [] BNull 0]"] g l1
  have e5: "startup (sample_driver [[]]) sample_str sample_to_datetime [] None ''mongodb://h''
     ''retail'' ''orders'' = (Continue [spec_row sample_str [] BNull 0], [''mongodb://h''],
                   Some [spec_row sample_str [] BNull 0])"
    by (simp add: spec_row_def)
  from a e1 e2 e3 e4 e5 show ?thesis by simp
qed

text \<open>
  Claim C7. With an empty connection string \<^verbatim>\<open>get_collection\<close> raises its error and
  constructs no client: the log of clients is unchanged. An absent connection string,
  in the secrets and in the environment, is read as the empty string and so has the
  same effect. With a non-empty string the function constructs the client and returns
  the driver's handle for the named database and collection, when the driver returns
  one.
\<close>

theorem get_collection_guards_connection_string:
  "get_collection drv clients [] db_name coll_name = (Inl RuntimeError, clients) \<and>
   (map_of sec ''MONGO_URI'' = None \<and> map_of environ ''MONGO_URI'' = None \<longrightarrow>
      MONGO_URI (Some sec) environ = Inr [] \<and>
      (\<forall>u. MONGO_URI (Some sec) environ = Inr u \<longrightarrow>
           get_collection drv clients u db_name coll_name = (Inl RuntimeError, clients))) \<and>
   (uri \<noteq> [] \<and> MongoClient drv uri = Inr client \<and> database drv client db_name = Inr db \<and>
    collection drv db coll_name = Inr coll
    \<longrightarrow> get_collection drv clients uri db_name coll_name = (Inr coll, clients @ [uri]))"
proof -
  have "MONGO_URI (Some sec) environ = Inr []"
    if "map_of sec ''MONGO_URI'' = None" "map_of environ ''MONGO_URI'' = None"
    using that by (simp add: MONGO_URI_def config_value_def map_add_def)
  then show ?thesis
    by (auto simp: get_collection_def)
qed

text \<open>
  Claim C7 on the sample driver.
\<close>

theorem get_collection_guards_connection_string_witness:
  "get_collection (sample_driver []) [] [] ''retail'' ''orders'' = (Inl RuntimeError, []) \<and>
   map_of ([] :: (string \<times> string) list) ''MONGO_URI'' = None \<and>
   MONGO_URI (Some []) [] = Inr [] \<and>
   ''mongodb://h'' \<noteq> [] \<and>
   MongoClient (sample_driver []) ''mongodb://h'' = Inr ''mongodb://h'' \<and>
   database (sample_driver []) ''mongodb://h'' ''retail'' = Inr ''mongodb://h/retail'' \<and>
   collection (sample_driver []) ''mongodb://h/retail'' ''orders'' = Inr ''mongodb://h/retail/orders'' \<and>
   get_collection (sample_driver []) [] ''mongodb://h'' ''retail'' ''orders''
     = (Inr ''mongodb://h/retail/orders'', [''mongodb://h''])"
  using get_collection_guards_connection_string
          [of "sample_driver []" "[]" "''retail''" "''orders''" "[]" "[]" "''mongodb://h''"
              "''mongodb://h''" "''mongodb://h/retail''" "''mongodb://h/retail/orders''"]
  by (simp add: sample_driver_def)

section \<open>Properties of the filters\<close>

lemma series_and_map:
  "series_and (map P df) (map Q df) = map (\<lambda>r. P r \<and> Q r) df"
  by (induction df) (simp_all add: series_and_def)

lemma series_and_True:
  "series_and (replicate (length df) True) (map P df) = map P df"
  by (induction df) (simp_all add: series_and_def)

lemma isin_map:
  "isin (map c df) vals = map (\<lambda>r. vals \<noteq> [] \<and> allowed vals (c r)) df"
  by (auto simp: isin_def allowed_def split: option.splits)

lemma boolean_index_map: "boolean_index df (map P df) = filter P df"
  by (induction df) (simp_all add: boolean_index_def)

lemma date_mask_eq:
  "date_mask df (d0 # d1 # rest) = Inr (map (in_date_range d0 d1) df)"
proof -
  have "series_ge (map purchase_ts df) x
          = map (\<lambda>r. case purchase_ts r of None \<Rightarrow> False | Some t \<Rightarrow> x \<le> t) df" for x
    by (simp add: series_ge_def comp_def)
  moreover have "series_lt (map purchase_ts df) x
          = map (\<lambda>r. case purchase_ts r of None \<Rightarrow> False | Some t \<Rightarrow> t < x) df" for x
    by (simp add: series_lt_def comp_def)
  moreover have "(\<lambda>r. (case purchase_ts r of None \<Rightarrow> False | Some t \<Rightarrow> d0 * 86400 \<le> t) \<and>
                     (case purchase_ts r of None \<Rightarrow> False | Some t \<Rightarrow> t < d1 * 86400 + 86400))
                 = in_date_range d0 d1"
    by (auto simp: in_date_range_def fun_eq_iff split: option.splits)
  ultimately show ?thesis
    by (simp add: Let_def series_and_map series_and_True to_datetime_date_def Timedelta_days_def)
qed

lemma mask_step:
  "(if vals \<noteq> [] then series_and (map P df) (isin (map c df) vals) else map P df)
     = map (\<lambda>r. P r \<and> allowed vals (c r)) df"
proof (cases "vals = []")
  case True
  then show ?thesis by (simp add: allowed_def)
next
  case False
  then show ?thesis by (simp add: series_and_map isin_map)
qed

lemma build_mask_eq:
  "build_mask df (d0 # d1 # rest) regions channels loyalty age
     = Inr (map (spec_filter d0 d1 regions channels loyalty age) df)"
proof -
  have "spec_filter d0 d1 regions channels loyalty age
          = (\<lambda>r. (((in_date_range d0 d1 r \<and> allowed regions (region r)) \<and>
                  allowed channels (channel r)) \<and> allowed loyalty (loyalty_member r)) \<and>
                  allowed age (age_band r))"
    by (simp add: spec_filter_def fun_eq_iff)
  then show ?thesis
    unfolding build_mask_def date_mask_eq raising.simps Let_def mask_step
    by (simp only:)
qed

lemma filtered_eq:
  "filtered df (d0 # d1 # rest) regions channels loyalty age
     = Inr (filter (spec_filter d0 d1 regions channels loyalty age) df)"
  by (simp add: filtered_def build_mask_eq boolean_index_map)

lemma filtered_Inr:
  assumes "filtered df date_range regions channels loyalty age = Inr f"
  obtains d0 d1 rest where "date_range = d0 # d1 # rest"
    and "f = filter (spec_filter d0 d1 regions channels loyalty age) df"
proof (cases date_range)
  case Nil
  with assms show ?thesis by (simp add: filtered_def build_mask_def)
next
  case (Cons d0 ds)
  show ?thesis
  proof (cases ds)
    case Nil
    with Cons assms show ?thesis by (simp add: filtered_def build_mask_def)
  next
    case (Cons d1 rest)
    with \<open>date_range = d0 # ds\<close> assms that show ?thesis by (simp add: filtered_eq)
  qed
qed

text \<open>
  Claim C3. For a date range of a start and an end date, the date filter keeps a row
  exactly when its timestamp lies in the half-open interval from the midnight that
  begins the start date to the midnight that ends the end date. A row at 23:59:59 of
  the end date is kept, a row at the following midnight is dropped, and a row with a
  null timestamp is dropped.
\<close>

theorem date_filter_half_open:
  "date_mask df [start_date, end_date] = Inr (map (in_date_range start_date end_date) df) \<and>
   filtered df [start_date, end_date] [] [] [] []
     = Inr (filter (in_date_range start_date end_date) df) \<and>
   (start_date \<le> end_date \<longrightarrow>
      filtered [r\<lparr>purchase_ts := Some (end_date * 86400 + 86399)\<rparr>] [start_date, end_date] [] [] [] []
        = Inr [r\<lparr>purchase_ts := Some (end_date * 86400 + 86399)\<rparr>]) \<and>
   filtered [r\<lparr>purchase_ts := Some ((end_date + 1) * 86400)\<rparr>] [start_date, end_date] [] [] [] []
     = Inr [] \<and>
   filtered [r\<lparr>purchase_ts := None\<rparr>] [start_date, end_date] [] [] [] [] = Inr []"
proof -
  have "spec_filter start_date end_date [] [] [] [] = in_date_range start_date end_date"
    by (simp add: spec_filter_def allowed_def fun_eq_iff)
  then have f: "filtered df' [start_date, end_date] [] [] [] []
      = Inr (filter (in_date_range start_date end_date) df')" for df'
    by (simp add: filtered_eq)
  show ?thesis
    unfolding f date_mask_eq by (simp add: in_date_range_def)
qed

text \<open>
  Claim C3 at the range of two consecutive days, with rows at the last second of the
  end date, at the following midnight, without a timestamp, at the first second of
  the start date and one second before it.
\<close>

theorem date_filter_half_open_witness:
  "(19723::int) \<le> 19724 \<and>
   date_mask [sample_row (19724 * 86400 + 86399) ''Tuesday'' 23 10,
              sample_row (19725 * 86400) ''Wednesday'' 0 20,
              (sample_row 0 ''Monday'' 9 30)\<lparr>purchase_ts := None\<rparr>,
              sample_row (19723 * 86400) ''Monday'' 0 40,
              sample_row (19723 * 86400 - 1) ''Sunday'' 23 50] [19723, 19724]
     = Inr [True, False, False, True, False] \<and>
   filtered [(sample_row 0 ''Tuesday'' 23 10)\<lparr>purchase_ts := Some (19724 * 86400 + 86399)\<rparr>]
            [19723, 19724] [] [] [] []
     = Inr [(sample_row 0 ''Tuesday'' 23 10)\<lparr>purchase_ts := Some (19724 * 86400 + 86399)\<rparr>]"
  using date_filter_half_open
          [of "[sample_row (19724 * 86400 + 86399) ''Tuesday'' 23 10,
              sample_row (19725 * 86400) ''Wednesday'' 0 20,
              (sample_row 0 ''Monday'' 9 30)\<lparr>purchase_ts := None\<rparr>,
              sample_row (19723 * 86400) ''Monday'' 0 40,
              sample_row (19723 * 86400 - 1) ''Sunday'' 23 50]" 19723 19724
              "sample_row 0 ''Tuesday'' 23 10"]
  by (simp add: in_date_range_def sample_row_def)

text \<open>
  Claim C4. The filtered frame consists of the rows of the frame, in their order, that
  satisfy the conjunction of the date predicate and, for each of region, channel,
  loyalty and age band whose selection is not empty, membership of the row's value in
  the selection; an empty selection restricts nothing.
\<close>

theorem filtered_is_conjunction:
  "filtered df [start_date, end_date] regions channels loyalty age
     = Inr (filter (spec_filter start_date end_date regions channels loyalty age) df) \<and>
   (\<forall>r. spec_filter start_date end_date regions channels loyalty age r \<longleftrightarrow>
        in_date_range start_date end_date r \<and>
        (regions \<noteq> [] \<longrightarrow> (\<exists>x\<in>set regions. region r = Some x)) \<and>
        (channels \<noteq> [] \<longrightarrow> (\<exists>x\<in>set channels. channel r = Some x)) \<and>
        (loyalty \<noteq> [] \<longrightarrow> (\<exists>x\<in>set loyalty. loyalty_member r = Some x)) \<and>
        (age \<noteq> [] \<longrightarrow> (\<exists>x\<in>set age. age_band r = Some x)))"
  by (auto simp: filtered_eq spec_filter_def allowed_def)

text \<open>
  Claim C4 on four rows, with a region and a loyalty selection and no channel
  selection: the row with a null channel passes, and fails once a channel is selected.
\<close>

theorem filtered_is_conjunction_witness:
  "filtered [sample_row 10 ''Thursday'' 0 100,
             (sample_row 20 ''Thursday'' 0 200)\<lparr>region := Some ''West''\<rparr>,
             (sample_row 30 ''Thursday'' 0 300)\<lparr>channel := None\<rparr>,
             sample_row 86400 ''Friday'' 0 400] [0, 0] [''East''] [] [True] []
     = Inr [sample_row 10 ''Thursday'' 0 100,
            (sample_row 30 ''Thursday'' 0 300)\<lparr>channel := None\<rparr>] \<and>
   spec_filter 0 0 [''East''] [] [True] [] ((sample_row 30 ''Thursday'' 0 300)\<lparr>channel := None\<rparr>) \<and>
   \<not> spec_filter 0 0 [''East''] [''web''] [True] [''25-34'']
       ((sample_row 30 ''Thursday'' 0 300)\<lparr>channel := None\<rparr>)"
  using filtered_is_conjunction
          [of "[sample_row 10 ''Thursday'' 0 100,
             (sample_row 20 ''Thursday'' 0 200)\<lparr>region := Some ''West''\<rparr>,
             (sample_row 30 ''Thursday'' 0 300)\<lparr>channel := None\<rparr>,
             sample_row 86400 ''Friday'' 0 400]" 0 0 "[''East'']" "[]" "[True]" "[]"]
        filtered_is_conjunction
          [of "[]" 0 0 "[''East'']" "[''web'']" "[True]" "[''25-34'']"]
  by (simp add: in_date_range_def sample_row_def)

text \<open>
  Claim C10. A row that survives the filters has a value in every dimension whose
  selection is not empty, so a null cell fails every non-empty selection. In
  particular a row with a null loyalty flag that is kept under the empty loyalty
  selection is dropped under the selection of both \<^verbatim>\<open>True\<close> and \<^verbatim>\<open>False\<close>: the two
  selections give different frames.
\<close>

theorem null_cell_fails_nonempty_selection:
  "(filtered df date_range regions channels loyalty age = Inr f \<and> r \<in> set f \<longrightarrow>
      (regions \<noteq> [] \<longrightarrow> region r \<noteq> None) \<and> (channels \<noteq> [] \<longrightarrow> channel r \<noteq> None) \<and>
      (loyalty \<noteq> [] \<longrightarrow> loyalty_member r \<noteq> None) \<and> (age \<noteq> [] \<longrightarrow> age_band r \<noteq> None)) \<and>
   (loyalty_member r = None \<and>
    filtered df date_range regions channels [] age = Inr f0 \<and> r \<in> set f0 \<and>
    filtered df date_range regions channels [True, False] age = Inr f1
    \<longrightarrow> r \<notin> set f1 \<and> f1 \<noteq> f0)"
proof -
  have 1: "(regions \<noteq> [] \<longrightarrow> region r \<noteq> None) \<and> (channels \<noteq> [] \<longrightarrow> channel r \<noteq> None) \<and>
      (loyalty \<noteq> [] \<longrightarrow> loyalty_member r \<noteq> None) \<and> (age \<noteq> [] \<longrightarrow> age_band r \<noteq> None)"
    if "filtered df date_range regions channels loyalty age = Inr f" "r \<in> set f"
  proof -
    from that(1) obtain d0 d1 rest where
      f: "f = filter (spec_filter d0 d1 regions channels loyalty age) df"
      by (rule filtered_Inr)
    from that(2) have "spec_filter d0 d1 regions channels loyalty age r"
      unfolding f by simp
    then show ?thesis
      by (auto simp: spec_filter_def allowed_def)
  qed
  have 2: "r \<notin> set f1 \<and> f1 \<noteq> f0"
    if "loyalty_member r = None" "r \<in> set f0"
      "filtered df date_range regions channels [True, False] age = Inr f1"
  proof -
    from that(3) obtain d0 d1 rest where
      f1: "f1 = filter (spec_filter d0 d1 regions channels [True, False] age) df"
      by (rule filtered_Inr)
    have "\<not> spec_filter d0 d1 regions channels [True, False] age r"
      using that(1) by (simp add: spec_filter_def allowed_def)
    then have "r \<notin> set f1" unfolding f1 by simp
    with that(2) show ?thesis by blast
  qed
  show ?thesis
  proof (rule conjI; rule impI)
    assume "filtered df date_range regions channels loyalty age = Inr f \<and> r \<in> set f"
    then have "filtered df date_range regions channels loyalty age = Inr f" "r \<in> set f"
      by simp_all
    then show "(regions \<noteq> [] \<longrightarrow> region r \<noteq> None) \<and> (channels \<noteq> [] \<longrightarrow> channel r \<noteq> None) \<and>
      (loyalty \<noteq> [] \<longrightarrow> loyalty_member r \<noteq> None) \<and> (age \<noteq> [] \<longrightarrow> age_band r \<noteq> None)"
      by (rule 1)
  next
    assume "loyalty_member r = None \<and>
      filtered df date_range regions channels [] age = Inr f0 \<and> r \<in> set f0 \<and>
      filtered df date_range regions channels [True, False] age = Inr f1"
    then have "loyalty_member r = None" "r \<in> set f0"
      "filtered df date_range regions channels [True, False] age = Inr f1"
      by simp_all
    then show "r \<notin> set f1 \<and> f1 \<noteq> f0" by (rule 2)
  qed
qed

text \<open>
  Claim C10 on a frame of one row with a null loyalty flag.
\<close>

theorem null_cell_fails_nonempty_selection_witness:
  "loyalty_member ((sample_row 10 ''Thursday'' 0 100)\<lparr>loyalty_member := None\<rparr>) = None \<and>
   filtered [(sample_row 10 ''Thursday'' 0 100)\<lparr>loyalty_member := None\<rparr>] [0, 0] [] [] [] []
     = Inr [(sample_row 10 ''Thursday'' 0 100)\<lparr>loyalty_member := None\<rparr>] \<and>
   filtered [(sample_row 10 ''Thursday'' 0 100)\<lparr>loyalty_member := None\<rparr>] [0, 0] [] []
            [True, False] [] = Inr [] \<and>
   (sample_row 10 ''Thursday'' 0 100)\<lparr>loyalty_member := None\<rparr> \<notin> set [] \<and>
   [] \<noteq> [(sample_row 10 ''Thursday'' 0 100)\<lparr>loyalty_member := None\<rparr>]"
  using null_cell_fails_nonempty_selection
          [of "[(sample_row 10 ''Thursday'' 0 100)\<lparr>loyalty_member := None\<rparr>]" "[0, 0]"
              "[]" "[]" "[]" "[]"
              "[(sample_row 10 ''Thursday'' 0 100)\<lparr>loyalty_member := None\<rparr>]"
              "(sample_row 10 ''Thursday'' 0 100)\<lparr>loyalty_member := None\<rparr>"
              "[(sample_row 10 ''Thursday'' 0 100)\<lparr>loyalty_member := None\<rparr>]" "[]"]
  by (simp add: filtered_eq spec_filter_def allowed_def in_date_range_def sample_row_def)

section \<open>Properties of the aggregates\<close>

lemma wd_sort: "sort (remdups [''Monday'', ''Monday'', ''Friday'']) = [''Friday'', ''Monday'']"
  by code_simp

text \<open>
  Claim C1, at three orders on Monday and Friday. The table has the seven weekday rows
  in their fixed order, and the cell of Friday at hour 11, a pair without orders on a
  weekday that occurs, holds \<open>0\<close>. The rows of the weekdays that do not occur hold
  null cells, not \<open>0\<close>: \<^verbatim>\<open>fillna(0)\<close> runs before \<^verbatim>\<open>reindex(wd_order)\<close>, which adds
  those rows.
\<close>

theorem heat_absent_weekday_is_null:
  "heat sample_numerics
        [sample_row 0 ''Monday'' 10 100, sample_row 3600 ''Monday'' 11 40,
         sample_row 345600 ''Friday'' 10 7]
     = \<lparr>index = [''Monday'', ''Tuesday'', ''Wednesday'', ''Thursday'', ''Friday'', ''Saturday'',
                  ''Sunday''],
        columns = [10, 11],
        cells = [[Some 100, Some 40], [None, None], [None, None], [None, None],
                 [Some 7, Some 0], [None, None], [None, None]]\<rparr>"
  by (simp add: heat_def reindex_def fillna_def pivot_table_def wd_order_def sample_row_def
        group_sum_def sample_numerics_def exact_sum_def Let_def wd_sort)

text \<open>
  Claim C2 as stated fails: with orders on the first and the third day only, the daily
  series has a point for the second day, with sum \<open>0\<close>, and so differs from the series
  that has one point per day present in the data.
\<close>

theorem daily_fills_missing_days:
  "daily sample_numerics [sample_row 0 ''Thursday'' 10 100, sample_row 172800 ''Saturday'' 10 50]
     = [(0, 100), (86400, 0), (172800, 50)] \<and>
   days_of [sample_row 0 ''Thursday'' 10 100, sample_row 172800 ''Saturday'' 10 50] = [0, 2] \<and>
   daily sample_numerics [sample_row 0 ''Thursday'' 10 100, sample_row 172800 ''Saturday'' 10 50]
     \<noteq> spec_daily_revenue sample_numerics
          [sample_row 0 ''Thursday'' 10 100, sample_row 172800 ''Saturday'' 10 50]"
  by (simp add: daily_def spec_daily_revenue_def days_of_def day_of_def day_sum_def on_day_def
        day_rows_def by_time_def to_datetime_date_def group_sum_def sample_numerics_def
        exact_sum_def sample_row_def upto_rec1)

lemma set_dropna: "set (dropna xs) = {x. Some x \<in> set xs}"
  by (induction xs rule: dropna.induct) auto

lemma day_of_midnight: "day_of (to_datetime_date d) = d"
  by (simp add: day_of_def to_datetime_date_def)

lemma sorted_midnights: "sorted_wrt (<) (map to_datetime_date [a..b])"
proof -
  have "sorted_wrt (\<lambda>x y. to_datetime_date x < to_datetime_date y) [a..b]"
    by (rule sorted_wrt_mono_rel[OF _ sorted_wrt_upto]) (simp add: to_datetime_date_def)
  then show ?thesis by (simp add: sorted_wrt_map)
qed

lemma mset_day_rows: "mset (day_rows f d) = mset (filter (on_day d) f)"
proof -
  have "(\<lambda>r. purchase_ts r \<noteq> None \<and> on_day d r) = on_day d"
    by (auto simp: on_day_def fun_eq_iff split: option.splits)
  then show ?thesis
    by (simp add: day_rows_def by_time_def filter_filter_mset conj_commute)
qed

lemma no_rows_on_day: "d \<notin> set (days_of f) \<Longrightarrow> day_rows f d = []"
proof -
  assume d: "d \<notin> set (days_of f)"
  have "\<not> on_day d r" if "r \<in> set f" for r
  proof
    assume "on_day d r"
    then obtain t where t: "purchase_ts r = Some t" "day_of t = d"
      by (auto simp: on_day_def split: option.splits)
    with that have "Some t \<in> set (map purchase_ts f)" by force
    then have "t \<in> set (dropna (map purchase_ts f))" by (simp add: set_dropna)
    with t(2) have "d \<in> set (days_of f)" by (auto simp: days_of_def)
    with d show False by simp
  qed
  then have "filter (on_day d) f = []" by (simp add: filter_empty_conv)
  then have "mset (day_rows f d) = {#}" by (simp add: mset_day_rows)
  then show ?thesis by simp
qed

lemma daily_points:
  "daily N f = (if days_of f = [] then []
              else map (\<lambda>d. (to_datetime_date d, day_sum N f d))
                       [Min (set (days_of f)) .. Max (set (days_of f))])"
  by (simp add: daily_def)

text \<open>
  Claim C2, as amended. The daily series is in strictly chronological order. Each of
  its points holds the library's sum of the \<^verbatim>\<open>total_amount\<close> cells of the rows of its
  calendar day, which are exactly the rows of the frame on that day, in the order of
  their timestamps. The series has exactly one point for every calendar day from the
  earliest to the latest day in the data, and a day in between without rows has the
  sum \<open>0\<close>.
\<close>

theorem daily_covers_every_calendar_day:
  "sorted_wrt (<) (map fst (daily N f)) \<and>
   (\<forall>p\<in>set (daily N f).
      snd p = group_sum N (map total_amount (day_rows f (day_of (fst p))))) \<and>
   (\<forall>d. mset (day_rows f d) = mset (filter (on_day d) f) \<and>
        sorted (map (\<lambda>r. the (purchase_ts r)) (day_rows f d))) \<and>
   (days_of f \<noteq> [] \<longrightarrow>
      map fst (daily N f) = map to_datetime_date [Min (set (days_of f)) .. Max (set (days_of f))] \<and>
      (\<forall>d. Min (set (days_of f)) \<le> d \<and> d \<le> Max (set (days_of f)) \<and> d \<notin> set (days_of f)
           \<longrightarrow> (to_datetime_date d, 0) \<in> set (daily N f)))"
proof (intro conjI)
  show "sorted_wrt (<) (map fst (daily N f))"
    by (simp add: daily_points comp_def sorted_midnights)
  show "\<forall>p\<in>set (daily N f).
      snd p = group_sum N (map total_amount (day_rows f (day_of (fst p))))"
    by (auto simp: daily_points day_of_midnight day_sum_def)
  show "\<forall>d. mset (day_rows f d) = mset (filter (on_day d) f) \<and>
        sorted (map (\<lambda>r. the (purchase_ts r)) (day_rows f d))"
  proof (intro allI conjI)
    fix d
    show "mset (day_rows f d) = mset (filter (on_day d) f)" by (rule mset_day_rows)
    have "sorted (map (\<lambda>r. the (purchase_ts r)) (by_time f))"
      by (simp add: by_time_def)
    then show "sorted (map (\<lambda>r. the (purchase_ts r)) (day_rows f d))"
      unfolding day_rows_def by (rule sorted_filter)
  qed
  show "days_of f \<noteq> [] \<longrightarrow>
      map fst (daily N f) = map to_datetime_date [Min (set (days_of f)) .. Max (set (days_of f))] \<and>
      (\<forall>d. Min (set (days_of f)) \<le> d \<and> d \<le> Max (set (days_of f)) \<and> d \<notin> set (days_of f)
           \<longrightarrow> (to_datetime_date d, 0) \<in> set (daily N f))"
  proof (intro impI conjI allI)
    assume ne: "days_of f \<noteq> []"
    then show "map fst (daily N f)
        = map to_datetime_date [Min (set (days_of f)) .. Max (set (days_of f))]"
      by (simp add: daily_points comp_def)
    fix d
    assume d: "Min (set (days_of f)) \<le> d \<and> d \<le> Max (set (days_of f)) \<and> d \<notin> set (days_of f)"
    then have "day_sum N f d = 0"
      by (simp add: day_sum_def no_rows_on_day group_sum_def)
    moreover from d have "d \<in> set [Min (set (days_of f)) .. Max (set (days_of f))]" by simp
    ultimately show "(to_datetime_date d, 0) \<in> set (daily N f)"
      using ne unfolding daily_points by (simp add: image_iff) force
  qed
qed

text \<open>
  The amended claim C2 at orders on the first and the third day.
\<close>

theorem daily_covers_every_calendar_day_witness:
  "days_of [sample_row 0 ''Thursday'' 10 100, sample_row 172800 ''Saturday'' 10 50] \<noteq> [] \<and>
   (1::int) \<notin> set (days_of [sample_row 0 ''Thursday'' 10 100, sample_row 172800 ''Saturday'' 10 50]) \<and>
   map fst (daily sample_numerics
              [sample_row 0 ''Thursday'' 10 100, sample_row 172800 ''Saturday'' 10 50])
     = [0, 86400, 172800] \<and>
   (86400, 0) \<in> set (daily sample_numerics
                        [sample_row 0 ''Thursday'' 10 100, sample_row 172800 ''Saturday'' 10 50])"
proof -
  have d: "days_of [sample_row 0 ''Thursday'' 10 100, sample_row 172800 ''Saturday'' 10 50] = [0, 2]"
    by (simp add: days_of_def day_of_def sample_row_def)
  from daily_covers_every_calendar_day
         [of sample_numerics
             "[sample_row 0 ''Thursday'' 10 100, sample_row 172800 ''Saturday'' 10 50]"]
  have m: "map fst (daily sample_numerics
                      [sample_row 0 ''Thursday'' 10 100, sample_row 172800 ''Saturday'' 10 50])
             = map to_datetime_date [0 .. 2]"
    and a: "\<forall>d. 0 \<le> d \<and> d \<le> 2 \<and> d \<noteq> 0 \<and> d \<noteq> 2
              \<longrightarrow> (to_datetime_date d, 0)
                    \<in> set (daily sample_numerics
                              [sample_row 0 ''Thursday'' 10 100,
                               sample_row 172800 ''Saturday'' 10 50])"
    by (simp_all add: d)
  from a have "(to_datetime_date 1, 0)
      \<in> set (daily sample_numerics
                [sample_row 0 ''Thursday'' 10 100, sample_row 172800 ''Saturday'' 10 50])"
    by simp
  with m show ?thesis
    by (simp add: d to_datetime_date_def upto_rec1)
qed

text \<open>
  Claim C8. On the empty filtered frame every aggregate has a value, whatever the
  arithmetic of the library: the order count and the revenue are \<open>0\<close>, the two means
  are null, the series and the grouped tables are empty, and the weekday table has
  its seven rows and no column.
\<close>

theorem empty_subset_aggregates:
  "page_aggregates N []
     = Inr \<lparr>agg_order_count = 0, agg_total_revenue = 0, agg_avg_order_value = None,
            agg_avg_discount_pct = None, agg_daily = [], agg_by_region = [],
            agg_by_channel = [], agg_aov = [], agg_disc = [],
            agg_heat = \<lparr>index = wd_order, columns = [],
                        cells = [[], [], [], [], [], [], []]\<rparr>\<rparr>"
  by (simp add: page_aggregates_def order_count_def total_revenue_def avg_order_value_def
        avg_discount_pct_def series_sum_def series_mean_def daily_def days_of_def by_region_def
        by_channel_def aov_def disc_def groupby_sum_def groupby_mean_def sort_values_desc_def
        sort_values_desc_na_def heat_def reindex_def fillna_def pivot_table_def wd_order_def)

end
